theory Spec2Isabelle
  imports Complex_Main "HOL-Library.Multiset" "HOL-Library.AList"
begin

section \<open>download\_data.py: the cache directory, the provider and the retry loop\<close>

text \<open>
  The script talks to two things outside itself: the directory \<open>data_cache\<close> and the
  market-data provider. Both are made explicit.

  \<^item> \<open>files\<close> is the directory \<open>CACHE_DIR\<close>: file name and content, in the order a
    directory listing yields them. The content of a file is the table that was written to it.
  \<^item> \<open>listing_rank\<close> is the file system's own order of listing: a file that is created is
    listed before the first file whose rank is not below its own. No rank is assumed of the
    files already there, so that a new file may appear at any place of the listing.
  \<^item> \<open>trace\<close> is the log of what the script does to the outside, in the order it does
    it: \<open>Request ticker range\<close> for every history request sent to the provider
    (\<open>stock.history(period=period, auto_adjust=False)\<close> in download\_data.py,
    \<open>ticker.history(start=..., end=..., interval='1d')\<close> in the integrated app), and
    \<open>Sleep secs\<close> for every \<open>time.sleep(secs)\<close>.

  A table is the list of its rows; \<open>len(df)\<close> is the length of the list and \<open>df.empty\<close>
  holds when the list is empty. The renaming of the columns (line 44) changes no row and is
  not modelled.
\<close>

datatype range_spec = Period string | Span int int

datatype event = Request string range_spec | Sleep rat

record 'r world =
  files :: "(string \<times> 'r list) list"
  trace :: "event list"
  listing_rank :: "string \<Rightarrow> nat"

text \<open>
  What one pass through the \<open>try\<close> block of \<open>download_ticker_data\<close> (lines 38-60) meets:
  the provider hands back a table, or an exception \<open>e\<close> is raised somewhere in the block;
  \<open>Raised s\<close> carries \<open>str(e)\<close>. The provider is a function of the number of requests
  made so far, of the ticker and of the period, so that the same ticker may be answered
  differently on each attempt. A range is a period token (\<open>Period\<close>) or a pair of
  timestamps (\<open>Span\<close>).
\<close>

datatype 'r response = History "'r list" | Raised string

type_synonym 'r provider = "nat \<Rightarrow> string \<Rightarrow> range_spec \<Rightarrow> 'r response"

fun is_request :: "event \<Rightarrow> bool" where
  "is_request (Request ticker rng) = True"
| "is_request (Sleep secs) = False"

definition requests :: "'r world \<Rightarrow> event list" where
  "requests w = filter is_request (trace w)"

definition history :: "'r provider \<Rightarrow> string \<Rightarrow> range_spec \<Rightarrow> 'r world \<Rightarrow> 'r response \<times> 'r world" where
  "history P ticker rng w =
     (P (length (requests w)) ticker rng, w\<lparr>trace := trace w @ [Request ticker rng]\<rparr>)"

definition sleep :: "rat \<Rightarrow> 'r world \<Rightarrow> 'r world" where
  "sleep secs w = w\<lparr>trace := trace w @ [Sleep secs]\<rparr>"

text \<open>
  \<open>path = CACHE_DIR / f"{ticker}.csv"\<close>, \<open>path.exists()\<close> and \<open>df.to_csv(path)\<close>.
  Writing to a file that exists replaces its content where it stands; a new file goes where
  the file system lists it.
\<close>

definition path_of :: "string \<Rightarrow> string" where
  "path_of ticker = ticker @ ''.csv''"

definition exists_file :: "string \<Rightarrow> 'r world \<Rightarrow> bool" where
  "exists_file p w = (p \<in> set (map fst (files w)))"

definition to_csv :: "'r list \<Rightarrow> string \<Rightarrow> 'r world \<Rightarrow> 'r world" where
  "to_csv df p w =
     w\<lparr>files :=
         (if exists_file p w then AList.update p df (files w)
          else insort_key (\<lambda>(name, content). listing_rank w name) (p, df) (files w))\<rparr>"

text \<open>
  The messages of the source are Korean text; they are written here as their UTF-8 bytes.
  \<open>msg_already\<close> is the literal of line 34, \<open>msg_rows\<close> the suffix of the f-string of
  line 49, \<open>msg_no_data\<close> the literal of line 54 and \<open>msg_three_tries\<close> that of line 62.
\<close>

definition msg_already :: string where
  "msg_already = [CHR 0xEC, CHR 0x9D, CHR 0xB4, CHR 0xEB, CHR 0xAF, CHR 0xB8, CHR 0x20,
     CHR 0xEB, CHR 0x8B, CHR 0xA4, CHR 0xEC, CHR 0x9A, CHR 0xB4, CHR 0xEB, CHR 0xA1, CHR 0x9C,
     CHR 0xEB, CHR 0x93, CHR 0x9C, CHR 0xEB, CHR 0x90, CHR 0xA8]"

definition msg_rows :: string where
  "msg_rows = [CHR 0xEA, CHR 0xB0, CHR 0x9C, CHR 0x20, CHR 0xEB, CHR 0x8D, CHR 0xB0,
     CHR 0xEC, CHR 0x9D, CHR 0xB4, CHR 0xED, CHR 0x84, CHR 0xB0]"

definition msg_no_data :: string where
  "msg_no_data = [CHR 0xEB, CHR 0x8D, CHR 0xB0, CHR 0xEC, CHR 0x9D, CHR 0xB4, CHR 0xED,
     CHR 0x84, CHR 0xB0, CHR 0x20, CHR 0xEC, CHR 0x97, CHR 0x86, CHR 0xEC, CHR 0x9D, CHR 0x8C]"

definition msg_three_tries :: string where
  "msg_three_tries = [CHR 0x33, CHR 0xEB, CHR 0xB2, CHR 0x88, CHR 0x20, CHR 0xEC, CHR 0x8B,
     CHR 0x9C, CHR 0xEB, CHR 0x8F, CHR 0x84, CHR 0x20, CHR 0xEC, CHR 0x8B, CHR 0xA4, CHR 0xED,
     CHR 0x8C, CHR 0xA8]"

text \<open>
  A pass through the \<open>try\<close> block fails when an exception is raised or the table is empty
  (the \<open>else\<close> branch of line 50 and the \<open>except\<close> branch of line 56).
\<close>

fun failed_attempt :: "'r response \<Rightarrow> bool" where
  "failed_attempt (History df) = (df = [])"
| "failed_attempt (Raised e) = True"

text \<open>What a failed pass reports: the literal of line 54, or \<open>str(e)\<close> (line 60).\<close>

fun failure_reason :: "'r response \<Rightarrow> string" where
  "failure_reason (History df) = msg_no_data"
| "failure_reason (Raised e) = e"

text \<open>The table a pass obtained: none, that is the empty one, when it raised.\<close>

fun fetched :: "'r response \<Rightarrow> 'r list" where
  "fetched (History df) = df"
| "fetched (Raised e) = []"

text \<open>\<open>str(n)\<close> for a natural number: its decimal digits.\<close>

fun str_nat :: "nat \<Rightarrow> string" where
  "str_nat n =
     (if n < 10 then [''0123456789'' ! n]
      else str_nat (n div 10) @ [''0123456789'' ! (n mod 10)])"

declare str_nat.simps [simp del]

text \<open>
  The loop \<open>for attempt in range(3)\<close> of \<open>download_ticker_data\<close>, entered at \<open>attempt\<close>.
  Each branch is a branch of the source: a table that is not empty is written and reported;
  an empty table and an exception sleep one second and go on while \<open>attempt < 2\<close>, and
  return the failure of this attempt otherwise. The last equation is the \<open>return\<close> after the
  loop (line 62).
\<close>

function attempts :: "'r provider \<Rightarrow> string \<Rightarrow> string \<Rightarrow> nat \<Rightarrow> 'r world \<Rightarrow> (bool \<times> string) \<times> 'r world" where
  "attempts P ticker period attempt w =
     (if attempt < 3 then
        (case history P ticker (Period period) w of
           (History df, w1) \<Rightarrow>
             if df \<noteq> [] then
               ((True, str_nat (length df) @ msg_rows), to_csv df (path_of ticker) w1)
             else if attempt < 2 then attempts P ticker period (Suc attempt) (sleep 1 w1)
             else ((False, msg_no_data), w1)
         | (Raised e, w1) \<Rightarrow>
             if attempt < 2 then attempts P ticker period (Suc attempt) (sleep 1 w1)
             else ((False, e), w1))
      else ((False, msg_three_tries), w))"
  by pat_completeness auto
termination
  by (relation "measure (\<lambda>(P, ticker, period, attempt, w). 3 - attempt)") auto

declare attempts.simps [simp del]

definition download_ticker_data :: "'r provider \<Rightarrow> string \<Rightarrow> string \<Rightarrow> 'r world \<Rightarrow> (bool \<times> string) \<times> 'r world" where
  "download_ticker_data P ticker period w =
     (if exists_file (path_of ticker) w then ((True, msg_already), w)
      else attempts P ticker period 0 w)"

subsection \<open>The download loop of \<open>main\<close>\<close>

text \<open>
  Lines 149-161: the tickers to download. \<open>existing_files = list(CACHE_DIR.glob("*.csv"))\<close>
  and \<open>existing_tickers = [f.stem for f in existing_files]\<close>; the stem of a name that
  matches \<open>*.csv\<close> is the name without its last four characters, unless nothing would
  be left (the stem of \<open>.csv\<close> is \<open>.csv\<close>). The five entries of the select box are
  the constructors of \<open>download_mode\<close>, in the order of the source.
\<close>

definition is_csv :: "string \<Rightarrow> bool" where
  "is_csv name = (4 \<le> length name \<and> drop (length name - 4) name = ''.csv'')"

definition stem :: "string \<Rightarrow> string" where
  "stem name = (if 4 < length name then take (length name - 4) name else name)"

definition glob_csv :: "'r world \<Rightarrow> string list" where
  "glob_csv w = filter is_csv (map fst (files w))"

definition existing_tickers :: "'r world \<Rightarrow> string list" where
  "existing_tickers w = map stem (glob_csv w)"

datatype download_mode = Remaining | Test5 | Part20 | Half50 | Everything

definition selected_tickers :: "download_mode \<Rightarrow> string list \<Rightarrow> string list \<Rightarrow> string list" where
  "selected_tickers download_mode all_tickers existing =
     (case download_mode of
        Remaining \<Rightarrow> filter (\<lambda>t. t \<notin> set existing) all_tickers
      | Test5 \<Rightarrow> take 5 all_tickers
      | Part20 \<Rightarrow> take 20 all_tickers
      | Half50 \<Rightarrow> take 50 all_tickers
      | Everything \<Rightarrow> all_tickers)"

definition new_tickers :: "download_mode \<Rightarrow> string list \<Rightarrow> 'r world \<Rightarrow> string list" where
  "new_tickers download_mode all_tickers w =
     filter (\<lambda>t. t \<notin> set (existing_tickers w))
       (selected_tickers download_mode all_tickers (existing_tickers w))"

text \<open>
  Lines 181-214. \<open>run\<close> holds \<open>success_list\<close>, \<open>fail_list\<close> and the world the loop
  has reached. \<open>item\<close> is the body of the inner loop for one ticker: the download, the
  append to one of the two lists, and the pause of \<open>delay\<close> seconds unless this was the last
  ticker (\<open>global_idx < len(new_tickers) - 1\<close>, over the integers). What the loop shows on
  the page (progress bar, status text, one message per ticker) changes neither list and is not
  modelled.
\<close>

record 'r run =
  success_list :: "string list"
  fail_list :: "(string \<times> string) list"
  world :: "'r world"

definition item :: "'r provider \<Rightarrow> string \<Rightarrow> rat \<Rightarrow> nat \<Rightarrow> nat \<Rightarrow> string \<Rightarrow> 'r run \<Rightarrow> 'r run" where
  "item P period delay n global_idx ticker r =
     (case download_ticker_data P ticker period (world r) of
        ((ok, result), w1) \<Rightarrow>
          let r1 = (if ok then r\<lparr>success_list := success_list r @ [ticker]\<rparr>
                    else r\<lparr>fail_list := fail_list r @ [(ticker, result)]\<rparr>);
              w2 = (if int global_idx < int n - 1 then sleep delay w1 else w1)
          in r1\<lparr>world := w2\<rparr>)"

text \<open>\<open>for i, ticker in enumerate(batch)\<close> with \<open>global_idx = batch_start + i\<close>.\<close>

fun batch_loop :: "'r provider \<Rightarrow> string \<Rightarrow> rat \<Rightarrow> nat \<Rightarrow> nat \<Rightarrow> nat \<Rightarrow> string list \<Rightarrow> 'r run \<Rightarrow> 'r run" where
  "batch_loop P period delay n batch_start i [] r = r"
| "batch_loop P period delay n batch_start i (ticker # batch) r =
     batch_loop P period delay n batch_start (Suc i) batch
       (item P period delay n (batch_start + i) ticker r)"

text \<open>
  \<open>for batch_idx in range(total_batches)\<close>, entered at \<open>batch_idx\<close>;
  \<open>slice xs a b\<close> is \<open>xs[a:b]\<close> for indices that are not negative.
\<close>

definition slice :: "'a list \<Rightarrow> nat \<Rightarrow> nat \<Rightarrow> 'a list" where
  "slice xs a b = take (b - a) (drop a xs)"

function batches :: "'r provider \<Rightarrow> string \<Rightarrow> rat \<Rightarrow> string list \<Rightarrow> nat \<Rightarrow> nat \<Rightarrow> nat \<Rightarrow> 'r run \<Rightarrow> 'r run" where
  "batches P period delay tickers batch_size total_batches batch_idx r =
     (if batch_idx < total_batches then
        (let batch_start = batch_idx * batch_size;
             batch_end = min (batch_start + batch_size) (length tickers);
             batch = slice tickers batch_start batch_end
         in batches P period delay tickers batch_size total_batches (Suc batch_idx)
              (batch_loop P period delay (length tickers) batch_start 0 batch r))
      else r)"
  by pat_completeness auto
termination
  by (relation "measure (\<lambda>(P, period, delay, tickers, batch_size, total_batches, batch_idx, r).
        total_batches - batch_idx)") auto

declare batches.simps [simp del]

text \<open>
  Lines 171-214 for the list \<open>tickers\<close> (the \<open>new_tickers\<close> of the source). An empty list
  starts nothing (line 171). \<open>total_batches = (len(new_tickers) + batch_size - 1) // batch_size\<close>
  raises \<open>ZeroDivisionError\<close> for a batch size of zero; the number input of line 143 only
  yields sizes from 1 to 50.
\<close>

datatype py_error = ZeroDivisionError

definition download_all :: "'r provider \<Rightarrow> string \<Rightarrow> nat \<Rightarrow> rat \<Rightarrow> string list \<Rightarrow> 'r world \<Rightarrow> py_error + 'r run" where
  "download_all P period batch_size delay tickers w =
     (let start = \<lparr>success_list = [], fail_list = [], world = w\<rparr> in
      if length tickers = 0 then Inr start
      else if batch_size = 0 then Inl ZeroDivisionError
      else Inr (batches P period delay tickers batch_size
                  ((length tickers + batch_size - 1) div batch_size) 0 start))"

definition main_download :: "'r provider \<Rightarrow> download_mode \<Rightarrow> string \<Rightarrow> nat \<Rightarrow> rat \<Rightarrow> string list \<Rightarrow> 'r world \<Rightarrow> py_error + 'r run" where
  "main_download P download_mode period batch_size delay all_tickers w =
     download_all P period batch_size delay (new_tickers download_mode all_tickers w) w"

subsection \<open>\<open>create_download_zip\<close> of download\_data.py\<close>

text \<open>
  A ZIP archive is the list of its entries, name and payload, in the order they were written.
  Lines 64-76: the entries are the files of \<open>CACHE_DIR\<close> that match \<open>*.csv\<close>, in the order
  of the directory listing, each under its own file name (\<open>zipf.write(csv_file,
  csv_file.name)\<close>); with no such file the function returns \<open>None\<close>. Lines 250-268:
  \<open>main\<close> shows the download button only when there are such files and the archive is not
  empty bytes.
\<close>

definition create_download_zip_cache :: "'r world \<Rightarrow> (string \<times> 'r list) list option" where
  "create_download_zip_cache w =
     (let csv_files = filter (\<lambda>(name, content). is_csv name) (files w) in
      if csv_files = [] then None else Some csv_files)"

definition offer_zip_cache :: "'r world \<Rightarrow> (string \<times> 'r list) list option" where
  "offer_zip_cache w =
     (if glob_csv w \<noteq> [] then create_download_zip_cache w else None)"

section \<open>streamlit\_integrated\_app.py\<close>

subsection \<open>\<open>fetch_stock_data\<close>\<close>

text \<open>
  Lines 109-131. The request goes to the same provider, with a start and an end date.
  \<open>None\<close> is returned for an empty table and for an exception raised anywhere in the
  \<open>try\<close> block; otherwise the table with its columns selected and renamed (lines 118-128),
  which is the function \<open>reshape\<close> here. The function touches no file.
\<close>

definition fetch_stock_data :: "('r list \<Rightarrow> 's list) \<Rightarrow> 'r provider \<Rightarrow> string \<Rightarrow> int \<Rightarrow> int \<Rightarrow> 'r world \<Rightarrow> 's list option \<times> 'r world" where
  "fetch_stock_data reshape P symbol start_date end_date w =
     (case history P symbol (Span start_date end_date) w of
        (History df, w1) \<Rightarrow> if df = [] then (None, w1) else (Some (reshape df), w1)
      | (Raised e, w1) \<Rightarrow> (None, w1))"

subsection \<open>\<open>create_download_zip\<close> of the integrated app\<close>

text \<open>
  Lines 133-145. \<open>data_dict\<close> is a Python dictionary: keys are unique and are iterated
  in the order of insertion, so it is an association list. Each table is serialised
  (\<open>df.to_csv(csv_buffer, index=False, encoding='utf-8')\<close>, the function \<open>csv\<close> here) and
  written under the name \<open>f"{filename}.csv"\<close>. Lines 334-342: the button that offers the
  archive is shown only for a dictionary that is not empty.
\<close>

definition create_download_zip :: "('df \<Rightarrow> 'b) \<Rightarrow> (string \<times> 'df) list \<Rightarrow> (string \<times> 'b) list" where
  "create_download_zip csv data_dict =
     map (\<lambda>(filename, df). (filename @ ''.csv'', csv df)) data_dict"

definition offer_zip :: "('df \<Rightarrow> 'b) \<Rightarrow> (string \<times> 'df) list \<Rightarrow> (string \<times> 'b) list option" where
  "offer_zip csv successful_data =
     (if successful_data \<noteq> [] then Some (create_download_zip csv successful_data) else None)"

subsection \<open>\<open>get_ticker_info_batch\<close>\<close>





text \<open>A row of \<open>info_df\<close>: the dictionary appended at lines 84-90.\<close>

record info_row =
  info_Symbol :: string
  info_Name :: "string option"
  info_Last_Sale :: "rat option"
  info_Market_Cap :: "rat option"
  info_Volume :: "rat option"




text \<open>
  The state of the loop: the two lists, the calls of \<open>progress_callback\<close> and the arguments
  of \<open>time.sleep\<close>. \<open>callback\<close> tells whether a callback was passed; the one of the
  application (lines 224-227) only redraws the progress bar.
\<close>

record batch =
  ticker_info :: "info_row list"
  failed_tickers :: "string list"
  progress :: "(nat \<times> nat) list"
  pauses :: "rat list"



subsection \<open>The merge and filter block of tab 2\<close>

text \<open>
  Lines 232-246. A row of \<open>ticker_df\<close> has the columns \<open>Symbol\<close>, \<open>Name\<close>,
  \<open>Market Category\<close> and \<open>Exchange\<close>; a cell that pandas holds as NaN or \<open>None\<close> is
  \<open>None\<close>. The merged table adds \<open>Name_info\<close> (the \<open>Name\<close> of \<open>info_df\<close>, renamed by
  the suffix), \<open>Last Sale\<close>, \<open>Market Cap\<close> and \<open>Volume\<close>; \<open>Name_info\<close> is the last
  field of the record so that dropping the column is the truncation of the record.
\<close>

record ticker_row =
  Symbol :: string
  Name :: "string option"
  Market_Category :: "string option"
  Exchange :: string

record priced_row = ticker_row +
  Last_Sale :: "rat option"
  Market_Cap :: "rat option"
  Volume :: "rat option"

record merged_row = priced_row +
  Name_info :: "string option"

text \<open>
  \<open>ticker_df.merge(info_df, on='Symbol', how='inner', suffixes=('', '_info'))\<close>: one row
  for every pair of a row of \<open>ticker_df\<close> and a row of \<open>info_df\<close> with the same symbol, in
  the order of the left table.
\<close>

definition join_rows :: "ticker_row \<Rightarrow> info_row \<Rightarrow> merged_row" where
  "join_rows t i =
     \<lparr>Symbol = Symbol t, Name = Name t, Market_Category = Market_Category t,
      Exchange = Exchange t, Last_Sale = info_Last_Sale i, Market_Cap = info_Market_Cap i,
      Volume = info_Volume i, Name_info = info_Name i\<rparr>"

definition merge_inner :: "ticker_row list \<Rightarrow> info_row list \<Rightarrow> merged_row list" where
  "merge_inner ticker_df info_df =
     concat (map (\<lambda>t. map (join_rows t) (filter (\<lambda>i. info_Symbol i = Symbol t) info_df))
       ticker_df)"

text \<open>
  \<open>merged_df['Name'] = merged_df['Name_info'].fillna(merged_df['Name'])\<close>, then
  \<open>merged_df.drop('Name_info', axis=1, inplace=True)\<close>. Both tables have a column
  \<open>Name\<close>, so the merged table always has the column \<open>Name_info\<close> that line 237 tests
  for.
\<close>

definition fillna :: "'a option \<Rightarrow> 'a option \<Rightarrow> 'a option" where
  "fillna x other = (case x of None \<Rightarrow> other | Some v \<Rightarrow> Some v)"

definition fill_name :: "merged_row \<Rightarrow> priced_row" where
  "fill_name m = priced_row.truncate (m\<lparr>Name := fillna (Name_info m) (Name m)\<rparr>)"

text \<open>
  \<open>column >= threshold\<close> on a numeric column, row by row: false for NaN. (A column
  without a single number is not numeric for pandas, which then raises on the comparison; no
  table is produced in that case, and none of its rows would pass the comparison here.)
\<close>

definition ge :: "rat option \<Rightarrow> rat \<Rightarrow> bool" where
  "ge x threshold = (case x of None \<Rightarrow> False | Some v \<Rightarrow> threshold \<le> v)"

text \<open>
  \<open>merge_names\<close> is \<open>merged_df\<close> after line 239; \<open>merge_and_filter\<close> is the whole block,
  which runs only when \<open>info_df\<close> is not empty (line 232) and otherwise leaves
  \<open>filtered_df\<close> unset.
\<close>

definition merge_names :: "ticker_row list \<Rightarrow> info_row list \<Rightarrow> priced_row list" where
  "merge_names ticker_df info_df = map fill_name (merge_inner ticker_df info_df)"

definition merge_and_filter :: "ticker_row list \<Rightarrow> info_row list \<Rightarrow> rat \<Rightarrow> rat \<Rightarrow> rat \<Rightarrow> priced_row list option" where
  "merge_and_filter ticker_df info_df min_price min_market_cap min_volume =
     (if info_df \<noteq> [] then
        (let merged_df = merge_names ticker_df info_df;
             filtered_df = filter (\<lambda>r. ge (Last_Sale r) min_price \<and>
                                      ge (Market_Cap r) min_market_cap \<and>
                                      ge (Volume r) min_volume) merged_df
         in Some filtered_df)
      else None)"

subsection \<open>\<open>download_nasdaq_tickers\<close>\<close>

text \<open>
  Lines 31-64. A table read by \<open>pd.read_csv\<close> has named columns and rows; a row gives a
  cell for a column name, NaN where it has none. \<open>requests.get\<close> followed by
  \<open>pd.read_csv\<close> yields a table or raises, which is the \<open>source\<close> the function is given
  for each of the two addresses. Reading or selecting a column the table does not have raises
  \<open>KeyError\<close>.
\<close>

datatype cell = NaN | Str string

type_synonym row = "(string \<times> cell) list"

record frame =
  columns :: "string list"
  rows :: "row list"

datatype source = Table frame | Broken string

datatype exn = KeyError string | OtherError string

definition cell_of :: "row \<Rightarrow> string \<Rightarrow> cell" where
  "cell_of r c = (case map_of r c of None \<Rightarrow> NaN | Some v \<Rightarrow> v)"

text \<open>\<open>df[df['Test Issue'] == 'N']\<close>.\<close>

definition not_test_issue :: "frame \<Rightarrow> exn + frame" where
  "not_test_issue df =
     (if ''Test Issue'' \<in> set (columns df)
      then Inr (df\<lparr>rows := filter (\<lambda>r. cell_of r ''Test Issue'' = Str ''N'') (rows df)\<rparr>)
      else Inl (KeyError ''Test Issue''))"

text \<open>\<open>df[c] = v\<close> for a constant \<open>v\<close>.\<close>

definition assign :: "string \<Rightarrow> cell \<Rightarrow> frame \<Rightarrow> frame" where
  "assign c v df =
     \<lparr>columns = (if c \<in> set (columns df) then columns df else columns df @ [c]),
      rows = map (AList.update c v) (rows df)\<rparr>"

text \<open>\<open>df[cs].copy()\<close> for a list of column names.\<close>

definition select_columns :: "string list \<Rightarrow> frame \<Rightarrow> exn + frame" where
  "select_columns cs df =
     (case filter (\<lambda>c. c \<notin> set (columns df)) cs of
        [] \<Rightarrow> Inr \<lparr>columns = cs, rows = map (\<lambda>r. map (\<lambda>c. (c, cell_of r c)) cs) (rows df)\<rparr>
      | c # missing \<Rightarrow> Inl (KeyError c))"

text \<open>\<open>df.rename(columns={a: b}, inplace=True)\<close>; a name that is not a column is ignored.\<close>

definition rename :: "string \<Rightarrow> string \<Rightarrow> frame \<Rightarrow> frame" where
  "rename a b df =
     \<lparr>columns = map (\<lambda>c. if c = a then b else c) (columns df),
      rows = map (map (\<lambda>(c, v). (if c = a then b else c, v))) (rows df)\<rparr>"

text \<open>
  \<open>pd.concat([x, y], ignore_index=True)\<close>: the columns of \<open>x\<close>, then those only
  \<open>y\<close> has; the rows of \<open>x\<close>, then the rows of \<open>y\<close>.
\<close>

definition concat_frames :: "frame \<Rightarrow> frame \<Rightarrow> frame" where
  "concat_frames x y =
     (let cs = columns x @ filter (\<lambda>c. c \<notin> set (columns x)) (columns y) in
      \<lparr>columns = cs, rows = map (\<lambda>r. map (\<lambda>c. (c, cell_of r c)) cs) (rows x @ rows y)\<rparr>)"

definition empty_frame :: frame where
  "empty_frame = \<lparr>columns = [], rows = []\<rparr>"

text \<open>
  The \<open>try\<close> block, lines 39-61: every step that can raise returns a sum, and the first
  exception ends the block.
\<close>

definition and_then :: "exn + 'a \<Rightarrow> ('a \<Rightarrow> exn + 'b) \<Rightarrow> exn + 'b" where
  "and_then x f = (case x of Inl e \<Rightarrow> Inl e | Inr v \<Rightarrow> f v)"

definition read_source :: "source \<Rightarrow> exn + frame" where
  "read_source src = (case src of Table df \<Rightarrow> Inr df | Broken e \<Rightarrow> Inl (OtherError e))"

definition try_block :: "source \<Rightarrow> source \<Rightarrow> exn + frame" where
  "try_block nasdaq_source other_source =
     and_then (read_source nasdaq_source) (\<lambda>nasdaq_read.
     and_then (not_test_issue nasdaq_read) (\<lambda>nasdaq_kept.
     let nasdaq_df = assign ''Exchange'' (Str ''NASDAQ'') nasdaq_kept in
     and_then (read_source other_source) (\<lambda>other_read.
     and_then (not_test_issue other_read) (\<lambda>other_kept.
     let other_df = assign ''Exchange'' (Str ''OTHER'') other_kept in
     and_then (select_columns [''Symbol'', ''Security Name'', ''Market Category'', ''Exchange'']
                 nasdaq_df) (\<lambda>nasdaq_clean.
     and_then (select_columns [''ACT Symbol'', ''Security Name'', ''Exchange''] other_df)
       (\<lambda>other_selected.
     let other_renamed = rename ''ACT Symbol'' ''Symbol'' other_selected;
         other_clean = assign ''Market Category'' (Str ''N/A'') other_renamed;
         combined_df = rename ''Security Name'' ''Name'' (concat_frames nasdaq_clean other_clean)
     in Inr combined_df))))))"

text \<open>The \<open>except\<close> branch (lines 62-64) turns every exception into an empty table.\<close>

definition download_nasdaq_tickers :: "source \<Rightarrow> source \<Rightarrow> frame" where
  "download_nasdaq_tickers nasdaq_source other_source =
     (case try_block nasdaq_source other_source of
        Inr combined_df \<Rightarrow> combined_df
      | Inl e \<Rightarrow> empty_frame)"

section \<open>Properties of download\_data.py\<close>

subsection \<open>The retry loop, unrolled\<close>


lemmas attempts_unroll =
  attempts.simps[of _ _ _ 0] attempts.simps[of _ _ _ "Suc 0"] attempts.simps[of _ _ _ "Suc (Suc 0)"]

lemma batch_loop_shift:
  "batch_loop P p d n bs i ts r = batch_loop P p d n 0 (bs + i) ts r"
  by (induction ts arbitrary: i r) simp_all

lemma batch_loop_append:
  "batch_loop P p d n bs i (xs @ ys) r =
     batch_loop P p d n bs (i + length xs) ys (batch_loop P p d n bs i xs r)"
  by (induction xs arbitrary: i r) simp_all

lemma slice_batch:
  "slice ts a (min (a + b) (length ts)) = take b (drop a ts)"
  by (simp add: slice_def min_def)

lemma ceil_div_covers:
  fixes n b :: nat
  assumes "0 < b" "(n + b - 1) div b \<le> k"
  shows "n \<le> k * b"
proof -
  have "n + b - 1 < b + (n + b - 1) div b * b"
    using assms(1) by (rule dividend_less_div_times)
  then have "n \<le> (n + b - 1) div b * b" using assms(1) by linarith
  also have "\<dots> \<le> k * b" using assms(2) by (rule mult_le_mono1)
  finally show ?thesis .
qed

lemma batches_flat:
  assumes "0 < bsz"
  shows "batches P p d ts bsz ((length ts + bsz - 1) div bsz) k r =
     batch_loop P p d (length ts) 0 (k * bsz) (drop (k * bsz) ts) r"
proof (induction "(length ts + bsz - 1) div bsz - k" arbitrary: k r)
  case 0
  then have "(length ts + bsz - 1) div bsz \<le> k" by simp
  then have "length ts \<le> k * bsz" using assms ceil_div_covers by blast
  then show ?case using 0 by (simp add: batches.simps[of _ _ _ _ _ _ k])
next
  case (Suc m)
  then have lt: "k < (length ts + bsz - 1) div bsz" by simp
  have m: "m = (length ts + bsz - 1) div bsz - Suc k" using Suc by simp
  let ?a = "k * bsz"
  have split: "drop ?a ts = take bsz (drop ?a ts) @ drop (Suc k * bsz) ts"
    by (metis append_take_drop_id drop_drop mult_Suc)
  have "batches P p d ts bsz ((length ts + bsz - 1) div bsz) k r =
        batches P p d ts bsz ((length ts + bsz - 1) div bsz) (Suc k)
          (batch_loop P p d (length ts) ?a 0 (take bsz (drop ?a ts)) r)"
    using lt by (simp add: batches.simps[of _ _ _ _ _ _ k] slice_batch Let_def)
  also have "\<dots> = batch_loop P p d (length ts) 0 (Suc k * bsz) (drop (Suc k * bsz) ts)
          (batch_loop P p d (length ts) ?a 0 (take bsz (drop ?a ts)) r)"
    using Suc.hyps(1)[OF m] .
  also have "\<dots> = batch_loop P p d (length ts) 0 (?a + length (take bsz (drop ?a ts))) (drop (Suc k * bsz) ts)
          (batch_loop P p d (length ts) 0 ?a (take bsz (drop ?a ts)) r)"
  proof (cases "drop (Suc k * bsz) ts = []")
    case True
    then show ?thesis using batch_loop_shift[of P p d "length ts" ?a 0] by simp
  next
    case False
    then have "Suc k * bsz < length ts" by simp
    then have "length (take bsz (drop ?a ts)) = bsz" by simp
    then show ?thesis using batch_loop_shift[of P p d "length ts" ?a 0] by (simp add: add.commute)
  qed
  also have "\<dots> = batch_loop P p d (length ts) 0 ?a (drop ?a ts) r"
    using batch_loop_append[of P p d "length ts" 0 ?a "take bsz (drop ?a ts)" "drop (Suc k * bsz) ts" r]
      split by simp
  finally show ?case .
qed


lemma dtd_cached:
  "exists_file (path_of t) w \<Longrightarrow> download_ticker_data P t p w = ((True, msg_already), w)"
  by (simp add: download_ticker_data_def)

lemma dtd_files_exact:
  assumes "\<not> exists_file (path_of t) w"
  shows "fst (fst (download_ticker_data P t p w)) =
      (\<not> (failed_attempt (P (length (requests w)) t (Period p))
          \<and> failed_attempt (P (length (requests w) + 1) t (Period p))
          \<and> failed_attempt (P (length (requests w) + 2) t (Period p))))"
    and "files (snd (download_ticker_data P t p w)) =
      (if \<not> failed_attempt (P (length (requests w)) t (Period p))
       then insort_key (\<lambda>(name, content). listing_rank w name)
              (path_of t, fetched (P (length (requests w)) t (Period p))) (files w)
       else if \<not> failed_attempt (P (length (requests w) + 1) t (Period p))
       then insort_key (\<lambda>(name, content). listing_rank w name)
              (path_of t, fetched (P (length (requests w) + 1) t (Period p))) (files w)
       else if \<not> failed_attempt (P (length (requests w) + 2) t (Period p))
       then insort_key (\<lambda>(name, content). listing_rank w name)
              (path_of t, fetched (P (length (requests w) + 2) t (Period p))) (files w)
       else files w)"
proof -
  obtain a where a: "P (length (requests w)) t (Period p) = a" by simp
  obtain b where b: "P (Suc (length (requests w))) t (Period p) = b" by simp
  obtain c where c: "P (Suc (Suc (length (requests w)))) t (Period p) = c" by simp
  show "fst (fst (download_ticker_data P t p w)) =
      (\<not> (failed_attempt (P (length (requests w)) t (Period p))
          \<and> failed_attempt (P (length (requests w) + 1) t (Period p))
          \<and> failed_attempt (P (length (requests w) + 2) t (Period p))))"
    using assms a b c
    by (cases a; cases b; cases c)
       (simp_all add: download_ticker_data_def attempts_unroll history_def sleep_def requests_def
          to_csv_def exists_file_def numeral_2_eq_2)
  show "files (snd (download_ticker_data P t p w)) =
      (if \<not> failed_attempt (P (length (requests w)) t (Period p))
       then insort_key (\<lambda>(name, content). listing_rank w name)
              (path_of t, fetched (P (length (requests w)) t (Period p))) (files w)
       else if \<not> failed_attempt (P (length (requests w) + 1) t (Period p))
       then insort_key (\<lambda>(name, content). listing_rank w name)
              (path_of t, fetched (P (length (requests w) + 1) t (Period p))) (files w)
       else if \<not> failed_attempt (P (length (requests w) + 2) t (Period p))
       then insort_key (\<lambda>(name, content). listing_rank w name)
              (path_of t, fetched (P (length (requests w) + 2) t (Period p))) (files w)
       else files w)"
    using assms a b c
    by (cases a; cases b; cases c)
       (simp_all add: download_ticker_data_def attempts_unroll history_def sleep_def requests_def
          to_csv_def exists_file_def numeral_2_eq_2)
qed

lemma dtd_rank:
  "listing_rank (snd (download_ticker_data P t p w)) = listing_rank w"
  by (simp add: download_ticker_data_def attempts_unroll history_def sleep_def to_csv_def
      split: response.splits)

lemma dtd_names:
  "fst ` set (files (snd (download_ticker_data P t p w))) = fst ` set (files w) \<or>
   fst ` set (files (snd (download_ticker_data P t p w))) = insert (path_of t) (fst ` set (files w))"
proof (cases "exists_file (path_of t) w")
  case True
  then show ?thesis by (simp add: dtd_cached)
next
  case False
  show ?thesis unfolding dtd_files_exact(2)[OF False] by (simp add: set_insort_key)
qed

lemma dtd_trace:
  "\<exists>tr. trace (snd (download_ticker_data P t p w)) = trace w @ tr \<and>
     (\<forall>e \<in> set tr. e = Sleep 1 \<or> (e = Request t (Period p) \<and> \<not> exists_file (path_of t) w))"
  by (auto simp add: download_ticker_data_def attempts_unroll history_def sleep_def to_csv_def
      split: response.splits)


lemma item_lists:
  "mset (success_list (item P p d n g t r)) + mset (map fst (fail_list (item P p d n g t r))) =
   mset (success_list r) + mset (map fst (fail_list r)) + {#t#}"
  by (simp add: item_def Let_def split: prod.splits)

lemma item_files:
  "fst ` set (files (world r)) \<subseteq> fst ` set (files (world (item P p d n g t r)))"
proof -
  obtain ok msg w1 where eq: "download_ticker_data P t p (world r) = ((ok, msg), w1)"
    by (metis surj_pair)
  have "fst ` set (files (world r)) \<subseteq> fst ` set (files w1)"
    using dtd_names[of P t p "world r"] eq by auto
  then show ?thesis using eq by (simp add: item_def Let_def sleep_def del: set_map)
qed

lemma item_trace:
  "\<exists>tr. trace (world (item P p d n g t r)) = trace (world r) @ tr \<and>
     (\<forall>S rng. Request S rng \<in> set tr \<longrightarrow> \<not> exists_file (path_of S) (world r))"
proof -
  obtain ok msg w1 where eq: "download_ticker_data P t p (world r) = ((ok, msg), w1)"
    by (metis surj_pair)
  obtain tr where tr: "trace w1 = trace (world r) @ tr"
     "\<forall>e \<in> set tr. e = Sleep 1 \<or> (e = Request t (Period p) \<and> \<not> exists_file (path_of t) (world r))"
    using dtd_trace[of P t p "world r"] eq by auto
  show ?thesis
  proof (cases "int g < int n - 1")
    case True
    then have "trace (world (item P p d n g t r)) = trace (world r) @ (tr @ [Sleep d])"
      using tr(1) eq by (simp add: item_def Let_def sleep_def)
    moreover have "\<forall>S rng. Request S rng \<in> set (tr @ [Sleep d]) \<longrightarrow> \<not> exists_file (path_of S) (world r)"
      using tr(2) by auto
    ultimately show ?thesis by blast
  next
    case False
    then have "trace (world (item P p d n g t r)) = trace (world r) @ tr"
      using tr(1) eq by (simp add: item_def Let_def sleep_def)
    moreover have "\<forall>S rng. Request S rng \<in> set tr \<longrightarrow> \<not> exists_file (path_of S) (world r)"
      using tr(2) by auto
    ultimately show ?thesis by blast
  qed
qed

lemma loop_lists:
  "mset (success_list (batch_loop P p d n b i ts r)) +
     mset (map fst (fail_list (batch_loop P p d n b i ts r))) =
   mset (success_list r) + mset (map fst (fail_list r)) + mset ts"
proof (induction ts arbitrary: i r)
  case Nil
  show ?case by simp
next
  case (Cons t ts)
  show ?case
    using Cons.IH[where i = "Suc i" and r = "item P p d n (b + i) t r"]
      item_lists[of P p d n "b + i" t r]
    by (simp add: ac_simps)
qed

lemma loop_trace:
  "\<exists>tr. trace (world (batch_loop P p d n b i ts r)) = trace (world r) @ tr \<and>
     (\<forall>S rng. Request S rng \<in> set tr \<longrightarrow> \<not> exists_file (path_of S) (world r))"
proof (induction ts arbitrary: i r)
  case Nil
  show ?case by simp
next
  case (Cons t ts)
  let ?r1 = "item P p d n (b + i) t r"
  obtain tr1 where tr1: "trace (world ?r1) = trace (world r) @ tr1"
      "\<forall>S rng. Request S rng \<in> set tr1 \<longrightarrow> \<not> exists_file (path_of S) (world r)"
    using item_trace[of P p d n "b + i" t r] by blast
  obtain tr2 where tr2: "trace (world (batch_loop P p d n b (Suc i) ts ?r1)) = trace (world ?r1) @ tr2"
      "\<forall>S rng. Request S rng \<in> set tr2 \<longrightarrow> \<not> exists_file (path_of S) (world ?r1)"
    using Cons.IH[where i = "Suc i" and r = ?r1] by blast
  have mono: "\<And>S. exists_file (path_of S) (world r) \<Longrightarrow> exists_file (path_of S) (world ?r1)"
    using item_files[of r P p d n "b + i" t] by (auto simp add: exists_file_def)
  have "trace (world (batch_loop P p d n b i (t # ts) r)) = trace (world r) @ (tr1 @ tr2)"
    using tr1(1) tr2(1) by simp
  moreover have "\<forall>S rng. Request S rng \<in> set (tr1 @ tr2) \<longrightarrow> \<not> exists_file (path_of S) (world r)"
    using tr1(2) tr2(2) mono by auto
  ultimately show ?case by blast
qed

lemma download_all_flat:
  "0 < bsz \<Longrightarrow> download_all P p bsz d ts w =
     Inr (batch_loop P p d (length ts) 0 0 ts \<lparr>success_list = [], fail_list = [], world = w\<rparr>)"
  using batches_flat[of bsz P p d ts 0] by (cases ts) (simp_all add: download_all_def)

lemma dtd_trace_exact:
  "trace (snd (download_ticker_data P ticker period w)) =
     trace w @
       (if exists_file (path_of ticker) w then []
        else if \<not> failed_attempt (P (length (requests w)) ticker (Period period))
          then [Request ticker (Period period)]
        else if \<not> failed_attempt (P (length (requests w) + 1) ticker (Period period))
          then [Request ticker (Period period), Sleep 1, Request ticker (Period period)]
        else [Request ticker (Period period), Sleep 1, Request ticker (Period period), Sleep 1,
              Request ticker (Period period)])"
  by (simp add: download_ticker_data_def attempts_unroll history_def sleep_def requests_def to_csv_def
      split: response.splits)

subsection \<open>A ticker whose every attempt fails\<close>

lemma path_of_inj: "path_of s = path_of t \<longleftrightarrow> s = t"
  by (simp add: path_of_def)

lemma dtd_all_fail:
  assumes "\<not> exists_file (path_of t) w"
    and "failed_attempt (P (length (requests w)) t (Period p))"
    and "failed_attempt (P (length (requests w) + 1) t (Period p))"
    and "failed_attempt (P (length (requests w) + 2) t (Period p))"
  shows "download_ticker_data P t p w =
    ((False, failure_reason (P (length (requests w) + 2) t (Period p))),
     w\<lparr>trace := trace w @ [Request t (Period p), Sleep 1, Request t (Period p), Sleep 1,
        Request t (Period p)]\<rparr>)"
proof -
  obtain a where a: "P (length (requests w)) t (Period p) = a" by simp
  obtain b where b: "P (Suc (length (requests w))) t (Period p) = b" by simp
  obtain c where c: "P (Suc (Suc (length (requests w)))) t (Period p) = c" by simp
  have "failed_attempt a" "failed_attempt b" "failed_attempt c"
    using assms a b c by (simp_all add: numeral_2_eq_2)
  then show ?thesis
    using assms(1) a b c
    by (cases a; cases b; cases c)
       (simp_all add: download_ticker_data_def attempts_unroll history_def sleep_def requests_def
          numeral_2_eq_2)
qed

lemma item_fail_mono:
  "set (fail_list r) \<subseteq> set (fail_list (item P p d n g s r))"
  by (auto simp add: item_def Let_def split: prod.splits)

lemma item_keeps_failing:
  assumes "\<forall>k. failed_attempt (P k t (Period p))"
    and "\<not> exists_file (path_of t) (world r)" and "t \<notin> set (success_list r)"
  shows "\<not> exists_file (path_of t) (world (item P p d n g s r))
     \<and> t \<notin> set (success_list (item P p d n g s r))
     \<and> (s = t \<longrightarrow> (\<exists>k. (t, failure_reason (P k t (Period p))) \<in> set (fail_list (item P p d n g s r))))"
proof (cases "s = t")
  case True
  have "download_ticker_data P t p (world r) =
    ((False, failure_reason (P (length (requests (world r)) + 2) t (Period p))),
     (world r)\<lparr>trace := trace (world r) @ [Request t (Period p), Sleep 1, Request t (Period p), Sleep 1,
        Request t (Period p)]\<rparr>)"
    using assms(1,2) by (intro dtd_all_fail) auto
  then show ?thesis using True assms(2,3)
    by (auto simp add: item_def Let_def sleep_def exists_file_def)
next
  case False
  obtain ok msg w1 where eq: "download_ticker_data P s p (world r) = ((ok, msg), w1)"
    by (metis surj_pair)
  have "fst ` set (files w1) = fst ` set (files (world r)) \<or>
      fst ` set (files w1) = insert (path_of s) (fst ` set (files (world r)))"
    using dtd_names[of P s p "world r"] eq by simp
  moreover have "path_of t \<notin> fst ` set (files (world r))"
    using assms(2) by (simp add: exists_file_def)
  ultimately have "path_of t \<notin> fst ` set (files w1)"
    using False path_of_inj[of t s] by (metis insert_iff)
  then have "\<not> exists_file (path_of t) w1"
    by (simp add: exists_file_def)
  then show ?thesis using False assms(3) eq
    by (auto simp add: item_def Let_def sleep_def exists_file_def)
qed

lemma loop_keeps_failing:
  assumes "\<forall>k. failed_attempt (P k t (Period p))"
  shows "\<not> exists_file (path_of t) (world r) \<Longrightarrow> t \<notin> set (success_list r) \<Longrightarrow>
     t \<notin> set (success_list (batch_loop P p d n b i ts r))
     \<and> set (fail_list r) \<subseteq> set (fail_list (batch_loop P p d n b i ts r))
     \<and> (t \<in> set ts \<longrightarrow>
          (\<exists>k. (t, failure_reason (P k t (Period p))) \<in> set (fail_list (batch_loop P p d n b i ts r))))"
proof (induction ts arbitrary: i r)
  case Nil
  then show ?case by simp
next
  case (Cons s ts)
  let ?r1 = "item P p d n (b + i) s r"
  have st: "\<not> exists_file (path_of t) (world ?r1) \<and> t \<notin> set (success_list ?r1)
     \<and> (s = t \<longrightarrow> (\<exists>k. (t, failure_reason (P k t (Period p))) \<in> set (fail_list ?r1)))"
    using assms Cons.prems by (rule item_keeps_failing)
  have ih: "t \<notin> set (success_list (batch_loop P p d n b (Suc i) ts ?r1))
     \<and> set (fail_list ?r1) \<subseteq> set (fail_list (batch_loop P p d n b (Suc i) ts ?r1))
     \<and> (t \<in> set ts \<longrightarrow>
          (\<exists>k. (t, failure_reason (P k t (Period p))) \<in> set (fail_list (batch_loop P p d n b (Suc i) ts ?r1))))"
    using st by (intro Cons.IH) auto
  have mono: "set (fail_list r) \<subseteq> set (fail_list ?r1)" by (rule item_fail_mono)
  show ?case using st ih mono by auto
qed

subsection \<open>Runs that differ in their pauses only\<close>

lemma dtd_frame:
  assumes "files w = files w'" and "listing_rank w = listing_rank w'"
    and "requests w = requests w'"
  shows "fst (download_ticker_data P t p w) = fst (download_ticker_data P t p w')
    \<and> files (snd (download_ticker_data P t p w)) = files (snd (download_ticker_data P t p w'))
    \<and> listing_rank (snd (download_ticker_data P t p w)) = listing_rank (snd (download_ticker_data P t p w'))
    \<and> requests (snd (download_ticker_data P t p w)) = requests (snd (download_ticker_data P t p w'))"
proof (cases "exists_file (path_of t) w")
  case True
  then have "exists_file (path_of t) w'" using assms(1) by (simp add: exists_file_def)
  then show ?thesis using True assms by (simp add: dtd_cached)
next
  case False
  then have nex: "\<not> exists_file (path_of t) w'" using assms(1) by (simp add: exists_file_def)
  obtain a where a: "P (length (requests w')) t (Period p) = a" by simp
  obtain b where b: "P (Suc (length (requests w'))) t (Period p) = b" by simp
  obtain c where c: "P (Suc (Suc (length (requests w')))) t (Period p) = c" by simp
  have res: "fst (download_ticker_data P t p w) = fst (download_ticker_data P t p w')"
    using False nex assms a b c
    by (cases a; cases b; cases c)
       (simp_all add: download_ticker_data_def attempts_unroll history_def sleep_def requests_def
          to_csv_def exists_file_def)
  have fs: "files (snd (download_ticker_data P t p w)) = files (snd (download_ticker_data P t p w'))"
    unfolding dtd_files_exact(2)[OF False] dtd_files_exact(2)[OF nex] using assms by simp
  have rq: "requests (snd (download_ticker_data P t p w)) = requests (snd (download_ticker_data P t p w'))"
    unfolding requests_def dtd_trace_exact using assms False nex by (simp add: requests_def)
  show ?thesis using res fs rq assms(2) by (simp add: dtd_rank)
qed


lemma item_frame:
  assumes "success_list r = success_list r'" and "fail_list r = fail_list r'"
    and "files (world r) = files (world r')"
    and "listing_rank (world r) = listing_rank (world r')"
    and "requests (world r) = requests (world r')"
  shows "success_list (item P p d n g t r) = success_list (item P p d n' g' t r')
    \<and> fail_list (item P p d n g t r) = fail_list (item P p d n' g' t r')
    \<and> files (world (item P p d n g t r)) = files (world (item P p d n' g' t r'))
    \<and> listing_rank (world (item P p d n g t r)) = listing_rank (world (item P p d n' g' t r'))
    \<and> requests (world (item P p d n g t r)) = requests (world (item P p d n' g' t r'))"
proof -
  obtain ok msg w1 where eq: "download_ticker_data P t p (world r) = ((ok, msg), w1)"
    by (metis surj_pair)
  obtain ok' msg' w1' where eq': "download_ticker_data P t p (world r') = ((ok', msg'), w1')"
    by (metis surj_pair)
  have "(ok, msg) = (ok', msg') \<and> files w1 = files w1' \<and> listing_rank w1 = listing_rank w1'
      \<and> requests w1 = requests w1'"
    using dtd_frame[OF assms(3,4,5), of P t p] eq eq' by simp
  then show ?thesis
    using eq eq' assms(1,2) by (simp add: item_def Let_def sleep_def requests_def)
qed

lemma loop_frame:
  assumes "success_list r = success_list r'" and "fail_list r = fail_list r'"
    and "files (world r) = files (world r')"
    and "listing_rank (world r) = listing_rank (world r')"
    and "requests (world r) = requests (world r')"
  shows "success_list (batch_loop P p d n b i ts r) = success_list (batch_loop P p d n' b' i' ts r')
    \<and> fail_list (batch_loop P p d n b i ts r) = fail_list (batch_loop P p d n' b' i' ts r')
    \<and> files (world (batch_loop P p d n b i ts r)) = files (world (batch_loop P p d n' b' i' ts r'))
    \<and> listing_rank (world (batch_loop P p d n b i ts r)) =
        listing_rank (world (batch_loop P p d n' b' i' ts r'))
    \<and> requests (world (batch_loop P p d n b i ts r)) =
        requests (world (batch_loop P p d n' b' i' ts r'))"
  using assms
proof (induction ts arbitrary: i i' r r')
  case Nil
  then show ?case by simp
next
  case (Cons t ts)
  note st = item_frame[OF Cons.prems, of P p d n "b + i" t n' "b' + i'"]
  show ?case
    using Cons.IH[where i = "Suc i" and i' = "Suc i'" and r = "item P p d n (b + i) t r"
        and r' = "item P p d n' (b' + i') t r'"] st
    by simp
qed

lemma item_extends:
  "(success_list (item P p d n g t r) = success_list r @ [t] \<and>
      fail_list (item P p d n g t r) = fail_list r) \<or>
   (success_list (item P p d n g t r) = success_list r \<and>
      (\<exists>msg. fail_list (item P p d n g t r) = fail_list r @ [(t, msg)]))"
  by (auto simp add: item_def Let_def split: prod.splits)

lemma loop_extends:
  "\<exists>ss fs. success_list (batch_loop P p d n b i ts r) = success_list r @ ss
     \<and> fail_list (batch_loop P p d n b i ts r) = fail_list r @ fs
     \<and> mset ss + mset (map fst fs) = mset ts"
proof (induction ts arbitrary: i r)
  case Nil
  show ?case by simp
next
  case (Cons t ts)
  let ?r1 = "item P p d n (b + i) t r"
  obtain ss fs where ih: "success_list (batch_loop P p d n b (Suc i) ts ?r1) = success_list ?r1 @ ss"
      "fail_list (batch_loop P p d n b (Suc i) ts ?r1) = fail_list ?r1 @ fs"
      "mset ss + mset (map fst fs) = mset ts"
    using Cons.IH[where i = "Suc i" and r = ?r1] by blast
  from item_extends[of P p d n "b + i" t r] show ?case
  proof (elim disjE conjE exE)
    assume "success_list ?r1 = success_list r @ [t]" "fail_list ?r1 = fail_list r"
    then have "success_list (batch_loop P p d n b i (t # ts) r) = success_list r @ (t # ss)
        \<and> fail_list (batch_loop P p d n b i (t # ts) r) = fail_list r @ fs
        \<and> mset (t # ss) + mset (map fst fs) = mset (t # ts)"
      using ih by simp
    then show ?thesis by blast
  next
    fix msg
    assume "success_list ?r1 = success_list r" "fail_list ?r1 = fail_list r @ [(t, msg)]"
    then have "success_list (batch_loop P p d n b i (t # ts) r) = success_list r @ ss
        \<and> fail_list (batch_loop P p d n b i (t # ts) r) = fail_list r @ ((t, msg) # fs)
        \<and> mset ss + mset (map fst ((t, msg) # fs)) = mset (t # ts)"
      using ih by simp
    then show ?thesis by blast
  qed
qed

subsection \<open>The loop of \<open>get_ticker_info_batch\<close>\<close>




subsection \<open>The retry wrapper\<close>

text \<open>
  C2. For every ticker and period, \<open>download_ticker_data\<close> sends the provider at most three
  requests, exactly one when the first attempt succeeds, and sleeps one second between two
  consecutive attempts, that is after each failed attempt but the third. The theorem gives the
  whole trace of the call: nothing when the file is cached, one request when the first attempt
  succeeds, request, pause, request when the first fails and the second succeeds, and three
  requests with a pause of one second between them otherwise.
\<close>

theorem download_ticker_data_retries:
  "(let req = Request ticker (Period period);
        first = P (length (requests w)) ticker (Period period);
        second = P (length (requests w) + 1) ticker (Period period);
        w' = snd (download_ticker_data P ticker period w)
    in trace w' = trace w @
         (if exists_file (path_of ticker) w then []
          else if \<not> failed_attempt first then [req]
          else if \<not> failed_attempt second then [req, Sleep 1, req]
          else [req, Sleep 1, req, Sleep 1, req])
       \<and> length (requests w') \<le> length (requests w) + 3
       \<and> (\<not> exists_file (path_of ticker) w \<and> \<not> failed_attempt first
            \<longrightarrow> requests w' = requests w @ [req]))"
proof -
  let ?w' = "snd (download_ticker_data P ticker period w)"
  note tr = dtd_trace_exact[of P ticker period w]
  have "length (requests ?w') \<le> length (requests w) + 3"
    unfolding requests_def tr by simp
  moreover have "requests ?w' = requests w @ [Request ticker (Period period)]"
    if "\<not> exists_file (path_of ticker) w"
      "\<not> failed_attempt (P (length (requests w)) ticker (Period period))"
    using that unfolding requests_def tr by simp
  ultimately show ?thesis using tr by (simp add: Let_def)
qed

theorem download_ticker_data_retries_witness:
  "\<not> exists_file (path_of ''AAPL'') \<lparr>files = [], trace = [], listing_rank = (\<lambda>name. 0)\<rparr>
   \<and> \<not> failed_attempt (History [0::nat])
   \<and> requests (snd (download_ticker_data (\<lambda>k t r. History [0::nat]) ''AAPL'' ''8y''
         \<lparr>files = [], trace = [], listing_rank = (\<lambda>name. 0)\<rparr>)) = [Request ''AAPL'' (Period ''8y'')]"
  using download_ticker_data_retries
    [where w = "\<lparr>files = [], trace = [], listing_rank = (\<lambda>name. 0)\<rparr>" and ticker = "''AAPL''" and period = "''8y''"
       and P = "\<lambda>k t r. History [0::nat]"]
  by (simp add: Let_def exists_file_def requests_def)

subsection \<open>The cache check\<close>

text \<open>
  C4. When the file \<open>S.csv\<close> is in the cache directory, whatever its content,
  \<open>download_ticker_data\<close> returns success at once and leaves the world as it was (no request,
  no pause, no write); \<open>main\<close> does not put \<open>S\<close> among the tickers to download; and the
  download loop, run over any list of tickers or over the list \<open>main\<close> selects, sends the
  provider no request for \<open>S\<close>.
\<close>

theorem cached_symbol_is_never_fetched:
  assumes "(path_of S, content) \<in> set (files w)"
  shows "download_ticker_data P S period w = ((True, msg_already), w)
    \<and> (S \<noteq> [] \<longrightarrow> S \<notin> set (new_tickers download_mode all_tickers w))
    \<and> (\<forall>r. download_all P period batch_size delay tickers w = Inr r \<longrightarrow>
          (\<exists>tr. trace (world r) = trace w @ tr \<and> (\<forall>rng. Request S rng \<notin> set tr)))
    \<and> (\<forall>r. main_download P download_mode period batch_size delay all_tickers w = Inr r \<longrightarrow>
          (\<exists>tr. trace (world r) = trace w @ tr \<and> (\<forall>rng. Request S rng \<notin> set tr)))"
proof -
  have ex: "exists_file (path_of S) w"
    using assms by (force simp add: exists_file_def)
  have one: "download_ticker_data P S period w = ((True, msg_already), w)"
    using ex by (rule dtd_cached)
  have two: "S \<notin> set (new_tickers download_mode all_tickers w)" if "S \<noteq> []"
  proof -
    have "is_csv (path_of S)" by (simp add: is_csv_def path_of_def)
    moreover have "stem (path_of S) = S" using that by (simp add: stem_def path_of_def)
    ultimately have "S \<in> set (existing_tickers w)"
      using ex by (force simp add: existing_tickers_def glob_csv_def exists_file_def)
    then show ?thesis by (simp add: new_tickers_def)
  qed
  have three: "\<exists>tr. trace (world r) = trace w @ tr \<and> (\<forall>rng. Request S rng \<notin> set tr)"
    if r: "download_all P period batch_size delay tickers w = Inr r" for r tickers
  proof (cases "batch_size = 0 \<or> tickers = []")
    case True
    then have "r = \<lparr>success_list = [], fail_list = [], world = w\<rparr>"
      using r by (auto simp add: download_all_def Let_def split: if_splits)
    then show ?thesis by simp
  next
    case False
    then have "r = batch_loop P period delay (length tickers) 0 0 tickers
        \<lparr>success_list = [], fail_list = [], world = w\<rparr>"
      using r download_all_flat[of batch_size P period delay tickers w] by simp
    then show ?thesis
      using loop_trace[of P period delay "length tickers" 0 0 tickers
          "\<lparr>success_list = [], fail_list = [], world = w\<rparr>"] ex
      by auto
  qed
  have four: "\<exists>tr. trace (world r) = trace w @ tr \<and> (\<forall>rng. Request S rng \<notin> set tr)"
    if "main_download P download_mode period batch_size delay all_tickers w = Inr r" for r
    using that three[of "new_tickers download_mode all_tickers w" r]
    by (simp add: main_download_def)
  show ?thesis using one two three[of tickers] four by blast
qed

theorem cached_symbol_is_never_fetched_witness:
  "(path_of ''AAPL'', [7::nat]) \<in> set (files \<lparr>files = [(''AAPL.csv'', [7])], trace = [], listing_rank = (\<lambda>name. 0)\<rparr>)
   \<and> download_ticker_data (\<lambda>k t r. History [0]) ''AAPL'' ''8y''
         \<lparr>files = [(''AAPL.csv'', [7::nat])], trace = [], listing_rank = (\<lambda>name. 0)\<rparr>
       = ((True, msg_already), \<lparr>files = [(''AAPL.csv'', [7])], trace = [], listing_rank = (\<lambda>name. 0)\<rparr>)
   \<and> ''AAPL'' \<noteq> []
   \<and> ''AAPL'' \<notin> set (new_tickers Everything [''AAPL'', ''MSFT'']
         \<lparr>files = [(''AAPL.csv'', [7::nat])], trace = [], listing_rank = (\<lambda>name. 0)\<rparr>)
   \<and> (\<exists>r tr. download_all (\<lambda>k t r. History [0]) ''8y'' 10 (1 / 2) [''AAPL'', ''MSFT'']
           \<lparr>files = [(''AAPL.csv'', [7::nat])], trace = [], listing_rank = (\<lambda>name. 0)\<rparr> = Inr r
         \<and> trace (world r) = tr \<and> Request ''AAPL'' (Period ''8y'') \<notin> set tr)"
proof -
  let ?w = "\<lparr>files = [(''AAPL.csv'', [7::nat])], trace = [], listing_rank = (\<lambda>name. 0)\<rparr>"
  let ?P = "\<lambda>(k::nat) (t::string) (r::range_spec). History [0::nat]"
  have h: "(path_of ''AAPL'', [7::nat]) \<in> set (files ?w)" by (simp add: path_of_def)
  note inst = cached_symbol_is_never_fetched[OF h, where P = ?P and period = "''8y''"
      and download_mode = Everything and all_tickers = "[''AAPL'', ''MSFT'']"
      and batch_size = 10 and delay = "1 / 2" and tickers = "[''AAPL'', ''MSFT'']"]
  obtain r where r: "download_all ?P ''8y'' 10 (1 / 2) [''AAPL'', ''MSFT''] ?w = Inr r"
    using download_all_flat[of 10 ?P "''8y''" "1 / 2" "[''AAPL'', ''MSFT'']" ?w] by simp
  show ?thesis using h inst r by auto
qed

subsection \<open>Every symbol of a batch is recorded once\<close>



subsection \<open>The reason recorded for a symbol that fails three times\<close>

text \<open>
  C3, as the code has it. When the file of a ticker is not cached and all three attempts fail,
  \<open>download_ticker_data\<close> returns \<open>False\<close> with the reason of the third attempt: the text
  of line 54 for an empty table, \<open>str(e)\<close> for an exception. In a run of the download loop
  over \<open>before @ t # later\<close>, the loop reaches \<open>t\<close> with the lists, the files and the
  number of requests that the run over \<open>before\<close> ends with. When the file of \<open>t\<close> is not
  there then and the three attempts that follow fail, the run records what the run over
  \<open>before\<close> records, then \<open>t\<close> on the failure list with the reason of the third of these
  attempts and not on the success list, then the tickers of \<open>later\<close>. A ticker that is not
  cached and whose every attempt fails is never on the success list, and is on the failure
  list as often as it is in the input. The text of line 62 plays no part.
\<close>

theorem failed_symbol_keeps_last_reason:
  "(\<not> exists_file (path_of t) w
      \<and> failed_attempt (P (length (requests w)) t (Period period))
      \<and> failed_attempt (P (length (requests w) + 1) t (Period period))
      \<and> failed_attempt (P (length (requests w) + 2) t (Period period))
      \<longrightarrow> fst (download_ticker_data P t period w) =
            (False, failure_reason (P (length (requests w) + 2) t (Period period))))
   \<and> (download_all P period batch_size delay before w = Inr reached
        \<and> download_all P period batch_size delay (before @ t # later) w = Inr r
        \<and> \<not> exists_file (path_of t) (world reached)
        \<and> failed_attempt (P (length (requests (world reached))) t (Period period))
        \<and> failed_attempt (P (length (requests (world reached)) + 1) t (Period period))
        \<and> failed_attempt (P (length (requests (world reached)) + 2) t (Period period))
      \<longrightarrow> (\<exists>successes failures.
             success_list r = success_list reached @ successes
           \<and> fail_list r = fail_list reached @
               (t, failure_reason (P (length (requests (world reached)) + 2) t (Period period)))
               # failures
           \<and> mset successes + mset (map fst failures) = mset later))
   \<and> ((\<forall>k. failed_attempt (P k t (Period period))) \<and> \<not> exists_file (path_of t) w
        \<and> download_all P period batch_size delay tickers w = Inr r
      \<longrightarrow> t \<notin> set (success_list r)
          \<and> count (mset (map fst (fail_list r))) t = count (mset tickers) t)"
proof -
  let ?start = "\<lparr>success_list = [], fail_list = [], world = w\<rparr>"
  have one: "fst (download_ticker_data P t period w) =
            (False, failure_reason (P (length (requests w) + 2) t (Period period)))"
    if "\<not> exists_file (path_of t) w"
      "failed_attempt (P (length (requests w)) t (Period period))"
      "failed_attempt (P (length (requests w) + 1) t (Period period))"
      "failed_attempt (P (length (requests w) + 2) t (Period period))"
    using dtd_all_fail[of t w P period] that by simp
  have two: "\<exists>successes failures.
             success_list r = success_list reached @ successes
           \<and> fail_list r = fail_list reached @
               (t, failure_reason (P (length (requests (world reached)) + 2) t (Period period)))
               # failures
           \<and> mset successes + mset (map fst failures) = mset later"
    if pre: "download_all P period batch_size delay before w = Inr reached"
      and run: "download_all P period batch_size delay (before @ t # later) w = Inr r"
      and nex: "\<not> exists_file (path_of t) (world reached)"
      and f0: "failed_attempt (P (length (requests (world reached))) t (Period period))"
      and f1: "failed_attempt (P (length (requests (world reached)) + 1) t (Period period))"
      and f2: "failed_attempt (P (length (requests (world reached)) + 2) t (Period period))"
  proof -
    let ?n = "length (before @ t # later)"
    let ?here = "batch_loop P period delay ?n 0 0 before ?start"
    let ?next = "item P period delay ?n (0 + length before) t ?here"
    have size: "0 < batch_size"
      using run by (auto simp add: download_all_def Let_def split: if_splits)
    have r: "r = batch_loop P period delay ?n 0 0 (before @ t # later) ?start"
      using run download_all_flat[OF size, of P period delay "before @ t # later" w] by simp
    have reached: "reached = batch_loop P period delay (length before) 0 0 before ?start"
      using pre download_all_flat[OF size, of P period delay before w] by simp
    have same: "success_list reached = success_list ?here \<and> fail_list reached = fail_list ?here
        \<and> files (world reached) = files (world ?here)
        \<and> listing_rank (world reached) = listing_rank (world ?here)
        \<and> requests (world reached) = requests (world ?here)"
      unfolding reached
      by (rule loop_frame) simp_all
    have nex': "\<not> exists_file (path_of t) (world ?here)"
      using nex same by (simp add: exists_file_def)
    have "download_ticker_data P t period (world ?here) =
        ((False, failure_reason (P (length (requests (world ?here)) + 2) t (Period period))),
         (world ?here)\<lparr>trace := trace (world ?here) @
            [Request t (Period period), Sleep 1, Request t (Period period), Sleep 1,
             Request t (Period period)]\<rparr>)"
      using nex' f0 f1 f2 same by (intro dtd_all_fail) simp_all
    then have step: "success_list ?next = success_list reached"
        "fail_list ?next = fail_list reached @
          [(t, failure_reason (P (length (requests (world reached)) + 2) t (Period period)))]"
      using same by (simp_all add: item_def Let_def)
    have split: "r = batch_loop P period delay ?n 0 (Suc (0 + length before)) later ?next"
      unfolding r using batch_loop_append[of P period delay ?n 0 0 before "t # later" ?start]
      by simp
    obtain ss fs where rest: "success_list r = success_list ?next @ ss"
        "fail_list r = fail_list ?next @ fs" "mset ss + mset (map fst fs) = mset later"
      unfolding split
      using loop_extends[of P period delay ?n 0 "Suc (0 + length before)" later ?next] by blast
    have "success_list r = success_list reached @ ss
        \<and> fail_list r = fail_list reached @
             (t, failure_reason (P (length (requests (world reached)) + 2) t (Period period))) # fs
        \<and> mset ss + mset (map fst fs) = mset later"
      using rest step by simp
    then show ?thesis by blast
  qed
  have three: "t \<notin> set (success_list r)
          \<and> count (mset (map fst (fail_list r))) t = count (mset tickers) t"
    if all: "\<forall>k. failed_attempt (P k t (Period period))" and nex: "\<not> exists_file (path_of t) w"
      and run: "download_all P period batch_size delay tickers w = Inr r"
  proof (cases "tickers = []")
    case True
    then have "r = ?start" using run by (simp add: download_all_def)
    then show ?thesis using True by simp
  next
    case False
    then have "batch_size \<noteq> 0"
      using run by (auto simp add: download_all_def Let_def split: if_splits)
    then have r: "r = batch_loop P period delay (length tickers) 0 0 tickers ?start"
      using run download_all_flat[of batch_size P period delay tickers w] by simp
    have out: "t \<notin> set (success_list r)"
      unfolding r
      using loop_keeps_failing[where P = P and t = t and p = period and r = ?start
          and d = delay and n = "length tickers" and b = 0 and i = 0 and ts = tickers] all nex
      by simp
    have "mset (success_list r) + mset (map fst (fail_list r)) = mset tickers"
      unfolding r using loop_lists[of P period delay "length tickers" 0 0 tickers ?start] by simp
    then have "count (mset (success_list r)) t + count (mset (map fst (fail_list r))) t
        = count (mset tickers) t"
      by (metis count_union)
    moreover have "count (mset (success_list r)) t = 0"
      using out by simp
    ultimately show ?thesis using out by simp
  qed
  show ?thesis using one two three by blast
qed

theorem failed_symbol_keeps_last_reason_witness:
  "\<not> exists_file (path_of ''BADTICKER'')
       (\<lparr>files = [(''AAPL.csv'', [0])], trace = [Request ''AAPL'' (Period ''8y'')],
         listing_rank = (\<lambda>name. 0)\<rparr> :: nat world)
   \<and> failed_attempt (Raised ''first'' :: nat response)
   \<and> fst (download_ticker_data
        (\<lambda>k t r. if t = ''AAPL'' then History [0::nat]
           else if k = 1 then Raised ''first'' else if k = 2 then Raised ''second''
           else Raised ''third'')
        ''BADTICKER'' ''8y''
        \<lparr>files = [(''AAPL.csv'', [0])], trace = [Request ''AAPL'' (Period ''8y'')],
          listing_rank = (\<lambda>name. 0)\<rparr>) = (False, ''third'')
   \<and> download_all
        (\<lambda>k t r. if t = ''AAPL'' then History [0::nat]
           else if k = 1 then Raised ''first'' else if k = 2 then Raised ''second''
           else Raised ''third'')
        ''8y'' 10 (1 / 2) [''AAPL''] \<lparr>files = [], trace = [], listing_rank = (\<lambda>name. 0)\<rparr>
       = Inr \<lparr>success_list = [''AAPL''], fail_list = [],
           world = \<lparr>files = [(''AAPL.csv'', [0])], trace = [Request ''AAPL'' (Period ''8y'')],
             listing_rank = (\<lambda>name. 0)\<rparr>\<rparr>
   \<and> (\<exists>r. download_all
          (\<lambda>k t r. if t = ''AAPL'' then History [0::nat]
             else if k = 1 then Raised ''first'' else if k = 2 then Raised ''second''
             else Raised ''third'')
          ''8y'' 10 (1 / 2) [''AAPL'', ''BADTICKER'']
          \<lparr>files = [], trace = [], listing_rank = (\<lambda>name. 0)\<rparr> = Inr r
        \<and> success_list r = [''AAPL'']
        \<and> fail_list r = [(''BADTICKER'', ''third'')]
        \<and> ''BADTICKER'' \<notin> set (success_list r)
        \<and> count (mset (map fst (fail_list r))) ''BADTICKER'' = 1)"
proof -
  let ?P = "\<lambda>(k::nat) t (r::range_spec). if t = ''AAPL'' then History [0::nat]
           else if k = 1 then Raised ''first'' else if k = 2 then Raised ''second''
           else Raised ''third''"
  let ?w = "\<lparr>files = [], trace = [], listing_rank = (\<lambda>name. 0)\<rparr> :: nat world"
  let ?w1 = "\<lparr>files = [(''AAPL.csv'', [0])], trace = [Request ''AAPL'' (Period ''8y'')],
         listing_rank = (\<lambda>name. 0)\<rparr> :: nat world"
  let ?reached = "\<lparr>success_list = [''AAPL''], fail_list = [], world = ?w1\<rparr>"
  note inst = failed_symbol_keeps_last_reason[where P = ?P and t = "''BADTICKER''"
      and period = "''8y''" and batch_size = 10 and delay = "1 / 2"]
  have nex0: "\<not> exists_file (path_of ''BADTICKER'') ?w" by (simp add: exists_file_def)
  have nex: "\<not> exists_file (path_of ''BADTICKER'') ?w1"
    by (simp add: exists_file_def path_of_def)
  have len: "length (requests ?w1) = 1" by (simp add: requests_def)
  have a: "fst (download_ticker_data ?P ''BADTICKER'' ''8y'' ?w1) = (False, ''third'')"
    using inst[where w = ?w1, THEN conjunct1] nex len by simp
  have d1: "download_ticker_data ?P ''AAPL'' ''8y'' ?w = ((True, ''1'' @ msg_rows), ?w1)"
    by (simp add: download_ticker_data_def exists_file_def attempts_unroll history_def requests_def
        to_csv_def path_of_def str_nat.simps[of "Suc 0"])
  have i1: "item ?P ''8y'' (1 / 2) (Suc 0) 0 ''AAPL'' \<lparr>success_list = [], fail_list = [], world = ?w\<rparr>
      = ?reached"
    using d1 by (simp add: item_def)
  have pre: "download_all ?P ''8y'' 10 (1 / 2) [''AAPL''] ?w = Inr ?reached"
    using download_all_flat[of 10 ?P "''8y''" "1 / 2" "[''AAPL'']" ?w] i1 by simp
  obtain r where r: "download_all ?P ''8y'' 10 (1 / 2) [''AAPL'', ''BADTICKER''] ?w = Inr r"
    using download_all_flat[of 10 ?P "''8y''" "1 / 2" "[''AAPL'', ''BADTICKER'']" ?w] by simp
  have "\<exists>successes failures.
         success_list r = success_list ?reached @ successes
       \<and> fail_list r = fail_list ?reached @
           (''BADTICKER'', failure_reason (?P (length (requests (world ?reached)) + 2) ''BADTICKER''
              (Period ''8y''))) # failures
       \<and> mset successes + mset (map fst failures) = mset []"
    using inst[where w = ?w and before = "[''AAPL'']" and later = "[]" and reached = ?reached
        and r = r, THEN conjunct2, THEN conjunct1] pre r nex len
    by simp
  then have b: "success_list r = [''AAPL''] \<and> fail_list r = [(''BADTICKER'', ''third'')]"
    using len by auto
  have c: "''BADTICKER'' \<notin> set (success_list r)
      \<and> count (mset (map fst (fail_list r))) ''BADTICKER'' = 1"
    using inst[where w = ?w and tickers = "[''AAPL'', ''BADTICKER'']" and r = r,
        THEN conjunct2, THEN conjunct2] nex0 r
    by simp
  show ?thesis using nex a pre r b c by simp
qed

text \<open>
  The scenario of the specification: \<open>AAPL\<close> is answered with 250 rows, \<open>BADTICKER\<close>
  with an empty table on every attempt. The failure list holds \<open>BADTICKER\<close> with the text of
  line 54, which is neither the text of line 62 nor the tag \<open>RetriesExhausted\<close>.
\<close>

theorem retries_exhausted_counterexample:
  "\<exists>r. download_all (\<lambda>k t r. if t = ''AAPL'' then History (replicate 250 (0::nat)) else History [])
          ''8y'' 10 (1 / 2) [''AAPL'', ''BADTICKER''] \<lparr>files = [], trace = [], listing_rank = (\<lambda>name. 0)\<rparr> = Inr r
     \<and> success_list r = [''AAPL'']
     \<and> fail_list r = [(''BADTICKER'', msg_no_data)]
     \<and> msg_no_data \<noteq> msg_three_tries
     \<and> msg_no_data \<noteq> ''RetriesExhausted''"
proof -
  let ?P = "\<lambda>(k::nat) t (r::range_spec). if t = ''AAPL'' then History (replicate 250 (0::nat)) else History []"
  let ?w = "\<lparr>files = [], trace = [], listing_rank = (\<lambda>name. 0)\<rparr> :: nat world"
  let ?w1 = "\<lparr>files = [(''AAPL.csv'', replicate 250 (0::nat))],
      trace = [Request ''AAPL'' (Period ''8y'')], listing_rank = (\<lambda>name. 0)\<rparr>"
  have d1: "download_ticker_data ?P ''AAPL'' ''8y'' ?w = ((True, ''250'' @ msg_rows), ?w1)"
    by (simp add: download_ticker_data_def exists_file_def attempts_unroll history_def requests_def
        to_csv_def path_of_def str_nat.simps[of 250] str_nat.simps[of 25] str_nat.simps[of 2])
  let ?w2 = "\<lparr>files = [(''AAPL.csv'', replicate 250 (0::nat))],
      trace = [Request ''AAPL'' (Period ''8y''), Sleep (1 / 2)], listing_rank = (\<lambda>name. 0)\<rparr>"
  let ?w3 = "\<lparr>files = [(''AAPL.csv'', replicate 250 (0::nat))],
      trace = [Request ''AAPL'' (Period ''8y''), Sleep (1 / 2),
        Request ''BADTICKER'' (Period ''8y''), Sleep 1,
        Request ''BADTICKER'' (Period ''8y''), Sleep 1,
        Request ''BADTICKER'' (Period ''8y'')], listing_rank = (\<lambda>name. 0)\<rparr>"
  have d2: "download_ticker_data ?P ''BADTICKER'' ''8y'' ?w2 = ((False, msg_no_data), ?w3)"
    by (simp add: download_ticker_data_def exists_file_def attempts_unroll history_def requests_def
        sleep_def path_of_def)
  have i1: "item ?P ''8y'' (1 / 2) (Suc (Suc 0)) 0 ''AAPL'' \<lparr>success_list = [], fail_list = [], world = ?w\<rparr>
      = \<lparr>success_list = [''AAPL''], fail_list = [], world = ?w2\<rparr>"
    using d1 by (simp add: item_def sleep_def)
  have i2: "item ?P ''8y'' (1 / 2) (Suc (Suc 0)) (Suc 0) ''BADTICKER'' \<lparr>success_list = [''AAPL''], fail_list = [], world = ?w2\<rparr>
      = \<lparr>success_list = [''AAPL''], fail_list = [(''BADTICKER'', msg_no_data)], world = ?w3\<rparr>"
    using d2 by (simp add: item_def)
  have run: "download_all ?P ''8y'' 10 (1 / 2) [''AAPL'', ''BADTICKER''] ?w =
      Inr \<lparr>success_list = [''AAPL''], fail_list = [(''BADTICKER'', msg_no_data)], world = ?w3\<rparr>"
    using download_all_flat[of 10 ?P "''8y''" "1 / 2" "[''AAPL'', ''BADTICKER'']" ?w] i1 i2
    by simp
  have ne: "msg_no_data \<noteq> msg_three_tries" "msg_no_data \<noteq> ''RetriesExhausted''"
    by (simp_all add: msg_no_data_def msg_three_tries_def)
  show ?thesis using run ne by simp
qed

subsection \<open>What a fetch returns on failure\<close>

text \<open>
  C5, as the code has it. \<open>fetch_stock_data\<close> returns \<open>None\<close> exactly when the attempt
  fails, for an empty table and for an exception alike, so its result does not tell the two
  apart. \<open>download_ticker_data\<close>, after three failed attempts, returns \<open>False\<close> with the
  text of line 54 when the last attempt gave an empty table and with \<open>str(e)\<close> when it
  raised \<open>e\<close>.
\<close>

theorem failure_values_returned:
  "((fst (fetch_stock_data reshape P symbol start_date end_date w) = None)
      = failed_attempt (P (length (requests w)) symbol (Span start_date end_date)))
   \<and> (\<not> exists_file (path_of t) v
        \<and> failed_attempt (Q (length (requests v)) t (Period period))
        \<and> failed_attempt (Q (length (requests v) + 1) t (Period period))
        \<and> Q (length (requests v) + 2) t (Period period) = History []
      \<longrightarrow> fst (download_ticker_data Q t period v) = (False, msg_no_data))
   \<and> (\<not> exists_file (path_of t) v
        \<and> failed_attempt (Q (length (requests v)) t (Period period))
        \<and> failed_attempt (Q (length (requests v) + 1) t (Period period))
        \<and> Q (length (requests v) + 2) t (Period period) = Raised msg
      \<longrightarrow> fst (download_ticker_data Q t period v) = (False, msg))"
proof -
  have one: "(fst (fetch_stock_data reshape P symbol start_date end_date w) = None)
      = failed_attempt (P (length (requests w)) symbol (Span start_date end_date))"
    by (cases "P (length (requests w)) symbol (Span start_date end_date)")
       (simp_all add: fetch_stock_data_def history_def)
  have two: "fst (download_ticker_data Q t period v) =
      (False, failure_reason (Q (length (requests v) + 2) t (Period period)))"
    if "\<not> exists_file (path_of t) v"
      "failed_attempt (Q (length (requests v)) t (Period period))"
      "failed_attempt (Q (length (requests v) + 1) t (Period period))"
      "failed_attempt (Q (length (requests v) + 2) t (Period period))"
    using dtd_all_fail[of t v Q period] that by simp
  show ?thesis using one two by simp
qed

theorem failure_values_returned_witness:
  "failed_attempt (Raised ''timeout'' :: nat response)
   \<and> fst (fetch_stock_data id (\<lambda>k t r. Raised ''timeout'' :: nat response) ''AAPL'' 0 1
        \<lparr>files = [], trace = [], listing_rank = (\<lambda>name. 0)\<rparr>) = None
   \<and> \<not> exists_file (path_of ''AAPL'') (\<lparr>files = [], trace = [], listing_rank = (\<lambda>name. 0)\<rparr> :: nat world)
   \<and> fst (download_ticker_data (\<lambda>k t r. History ([] :: nat list)) ''AAPL'' ''8y''
        \<lparr>files = [], trace = [], listing_rank = (\<lambda>name. 0)\<rparr>) = (False, msg_no_data)
   \<and> fst (download_ticker_data (\<lambda>k t r. Raised ''timeout'' :: nat response) ''AAPL'' ''8y''
        \<lparr>files = [], trace = [], listing_rank = (\<lambda>name. 0)\<rparr>) = (False, ''timeout'')"
proof -
  let ?w = "\<lparr>files = [], trace = [], listing_rank = (\<lambda>name. 0)\<rparr> :: nat world"
  have nex: "\<not> exists_file (path_of ''AAPL'') ?w" by (simp add: exists_file_def)
  have a: "fst (fetch_stock_data id (\<lambda>k t r. Raised ''timeout'' :: nat response) ''AAPL'' 0 1 ?w) = None"
    using failure_values_returned[where reshape = id and P = "\<lambda>k t r. Raised ''timeout'' :: nat response"
        and symbol = "''AAPL''" and start_date = 0 and end_date = 1 and w = ?w, THEN conjunct1]
    by simp
  have b: "fst (download_ticker_data (\<lambda>k t r. History ([] :: nat list)) ''AAPL'' ''8y'' ?w)
      = (False, msg_no_data)"
    using failure_values_returned[where Q = "\<lambda>k t r. History ([] :: nat list)"
        and t = "''AAPL''" and period = "''8y''" and v = ?w, THEN conjunct2, THEN conjunct1] nex
    by simp
  have c: "fst (download_ticker_data (\<lambda>k t r. Raised ''timeout'' :: nat response) ''AAPL'' ''8y'' ?w)
      = (False, ''timeout'')"
    using failure_values_returned[where Q = "\<lambda>k t r. Raised ''timeout'' :: nat response"
        and t = "''AAPL''" and period = "''8y''" and v = ?w and msg = "''timeout''",
        THEN conjunct2, THEN conjunct2] nex
    by simp
  show ?thesis using nex a b c by simp
qed

text \<open>
  The two kinds of failure at one input: \<open>fetch_stock_data\<close> returns \<open>None\<close> for the empty
  table and \<open>None\<close> for the exception.
\<close>

theorem fetch_stock_data_failures_counterexample:
  "fst (fetch_stock_data id (\<lambda>k t r. History ([] :: nat list)) ''AAPL'' 0 1
        \<lparr>files = [], trace = [], listing_rank = (\<lambda>name. 0)\<rparr>) = None
   \<and> fst (fetch_stock_data id (\<lambda>k t r. Raised ''timeout'' :: nat response) ''AAPL'' 0 1
        \<lparr>files = [], trace = [], listing_rank = (\<lambda>name. 0)\<rparr>) = None"
  by (simp add: fetch_stock_data_def history_def)

subsection \<open>What a fetch writes\<close>

text \<open>
  C9, as the code has it. \<open>fetch_stock_data\<close> leaves the files as they are; all it does to
  the outside is one request to the provider. \<open>download_ticker_data\<close> persists what it
  fetches itself. When the file is cached, the files stay as they are. When it is not, the
  call succeeds as soon as an attempt does not fail, and the files are then the files of
  before together with \<open>ticker.csv\<close>, holding the table of the first attempt that did not
  fail (the first, else the second, else the third); where the new file stands in the listing
  is left to the file system, so the files are compared as multisets. When all three attempts
  fail, the call fails and the files stay as they are.
\<close>

theorem fetch_side_effects:
  "files (snd (fetch_stock_data reshape P symbol start_date end_date w)) = files w
   \<and> trace (snd (fetch_stock_data reshape P symbol start_date end_date w)) =
       trace w @ [Request symbol (Span start_date end_date)]
   \<and> (let first = Q (length (requests v)) t (Period period);
          second = Q (length (requests v) + 1) t (Period period);
          third = Q (length (requests v) + 2) t (Period period);
          ok = fst (fst (download_ticker_data Q t period v));
          after = files (snd (download_ticker_data Q t period v))
      in (exists_file (path_of t) v \<longrightarrow> after = files v)
       \<and> (\<not> exists_file (path_of t) v \<and> \<not> failed_attempt first \<longrightarrow>
            ok \<and> mset after = add_mset (path_of t, fetched first) (mset (files v)))
       \<and> (\<not> exists_file (path_of t) v \<and> failed_attempt first \<and> \<not> failed_attempt second \<longrightarrow>
            ok \<and> mset after = add_mset (path_of t, fetched second) (mset (files v)))
       \<and> (\<not> exists_file (path_of t) v \<and> failed_attempt first \<and> failed_attempt second
            \<and> \<not> failed_attempt third \<longrightarrow>
            ok \<and> mset after = add_mset (path_of t, fetched third) (mset (files v)))
       \<and> (\<not> exists_file (path_of t) v \<and> failed_attempt first \<and> failed_attempt second
            \<and> failed_attempt third \<longrightarrow>
            \<not> ok \<and> after = files v)
       \<and> (\<not> ok \<or> exists_file (path_of t) v \<longrightarrow> after = files v))"
proof -
  have one: "files (snd (fetch_stock_data reshape P symbol start_date end_date w)) = files w
   \<and> trace (snd (fetch_stock_data reshape P symbol start_date end_date w)) =
       trace w @ [Request symbol (Span start_date end_date)]"
    by (cases "P (length (requests w)) symbol (Span start_date end_date)")
       (simp_all add: fetch_stock_data_def history_def)
  have cached: "files (snd (download_ticker_data Q t period v)) = files v"
    if "exists_file (path_of t) v"
    using that by (simp add: dtd_cached)
  note ok = dtd_files_exact(1)[of t v Q period]
  note after = dtd_files_exact(2)[of t v Q period]
  have two: "(let first = Q (length (requests v)) t (Period period);
          second = Q (length (requests v) + 1) t (Period period);
          third = Q (length (requests v) + 2) t (Period period);
          ok = fst (fst (download_ticker_data Q t period v));
          after = files (snd (download_ticker_data Q t period v))
      in (exists_file (path_of t) v \<longrightarrow> after = files v)
       \<and> (\<not> exists_file (path_of t) v \<and> \<not> failed_attempt first \<longrightarrow>
            ok \<and> mset after = add_mset (path_of t, fetched first) (mset (files v)))
       \<and> (\<not> exists_file (path_of t) v \<and> failed_attempt first \<and> \<not> failed_attempt second \<longrightarrow>
            ok \<and> mset after = add_mset (path_of t, fetched second) (mset (files v)))
       \<and> (\<not> exists_file (path_of t) v \<and> failed_attempt first \<and> failed_attempt second
            \<and> \<not> failed_attempt third \<longrightarrow>
            ok \<and> mset after = add_mset (path_of t, fetched third) (mset (files v)))
       \<and> (\<not> exists_file (path_of t) v \<and> failed_attempt first \<and> failed_attempt second
            \<and> failed_attempt third \<longrightarrow>
            \<not> ok \<and> after = files v)
       \<and> (\<not> ok \<or> exists_file (path_of t) v \<longrightarrow> after = files v))"
  proof (cases "exists_file (path_of t) v")
    case True
    then show ?thesis using cached by (simp add: Let_def)
  next
    case False
    show ?thesis
      unfolding Let_def ok[OF False] after[OF False] using False by simp
  qed
  show ?thesis using one two by blast
qed

theorem fetch_side_effects_witness:
  "\<not> exists_file (path_of ''AAPL'') (\<lparr>files = [], trace = [], listing_rank = (\<lambda>name. 0)\<rparr> :: nat world)
   \<and> failed_attempt (Raised ''timeout'' :: nat response)
   \<and> \<not> failed_attempt (History [7::nat])
   \<and> fst (fst (download_ticker_data (\<lambda>k t r. History [7 + k]) ''AAPL'' ''8y''
        \<lparr>files = [], trace = [], listing_rank = (\<lambda>name. 0)\<rparr>))
   \<and> mset (files (snd (download_ticker_data (\<lambda>k t r. History [7 + k]) ''AAPL'' ''8y''
        \<lparr>files = [], trace = [], listing_rank = (\<lambda>name. 0)\<rparr>))) = {#(''AAPL.csv'', [7])#}
   \<and> fst (fst (download_ticker_data
        (\<lambda>k t r. if k < 1 then Raised ''timeout'' else History [7 + k]) ''AAPL'' ''8y''
        \<lparr>files = [], trace = [], listing_rank = (\<lambda>name. 0)\<rparr>))
   \<and> mset (files (snd (download_ticker_data
        (\<lambda>k t r. if k < 1 then Raised ''timeout'' else History [7 + k]) ''AAPL'' ''8y''
        \<lparr>files = [], trace = [], listing_rank = (\<lambda>name. 0)\<rparr>))) = {#(''AAPL.csv'', [8])#}
   \<and> fst (fst (download_ticker_data
        (\<lambda>k t r. if k < 2 then Raised ''timeout'' else History [7 + k]) ''AAPL'' ''8y''
        \<lparr>files = [], trace = [], listing_rank = (\<lambda>name. 0)\<rparr>))
   \<and> mset (files (snd (download_ticker_data
        (\<lambda>k t r. if k < 2 then Raised ''timeout'' else History [7 + k]) ''AAPL'' ''8y''
        \<lparr>files = [], trace = [], listing_rank = (\<lambda>name. 0)\<rparr>))) = {#(''AAPL.csv'', [9])#}
   \<and> exists_file (path_of ''AAPL'')
        (\<lparr>files = [(''AAPL.csv'', [1])], trace = [], listing_rank = (\<lambda>name. 0)\<rparr> :: nat world)
   \<and> files (snd (download_ticker_data (\<lambda>k t r. History [7 + k]) ''AAPL'' ''8y''
        \<lparr>files = [(''AAPL.csv'', [1])], trace = [], listing_rank = (\<lambda>name. 0)\<rparr>))
       = [(''AAPL.csv'', [1])]
   \<and> \<not> fst (fst (download_ticker_data (\<lambda>k t r. History ([]::nat list)) ''AAPL'' ''8y''
        \<lparr>files = [], trace = [], listing_rank = (\<lambda>name. 0)\<rparr>))
   \<and> files (snd (download_ticker_data (\<lambda>k t r. History ([]::nat list)) ''AAPL'' ''8y''
        \<lparr>files = [], trace = [], listing_rank = (\<lambda>name. 0)\<rparr>)) = []"
proof -
  let ?w = "\<lparr>files = [], trace = [], listing_rank = (\<lambda>name. 0)\<rparr> :: nat world"
  let ?c = "\<lparr>files = [(''AAPL.csv'', [1])], trace = [], listing_rank = (\<lambda>name. 0)\<rparr> :: nat world"
  let ?G = "\<lambda>(n::nat) (k::nat) (t::string) (r::range_spec).
      if k < n then Raised ''timeout'' else History [7 + k]"
  let ?E = "\<lambda>(k::nat) (t::string) (r::range_spec). History ([]::nat list)"
  have nex: "\<not> exists_file (path_of ''AAPL'') ?w" by (simp add: exists_file_def)
  have ex: "exists_file (path_of ''AAPL'') ?c" by (simp add: exists_file_def path_of_def)
  have a1: "fst (fst (download_ticker_data (?G 0) ''AAPL'' ''8y'' ?w))
      \<and> mset (files (snd (download_ticker_data (?G 0) ''AAPL'' ''8y'' ?w))) = {#(''AAPL.csv'', [7])#}"
    using fetch_side_effects[where Q = "?G 0" and t = "''AAPL''" and period = "''8y''" and v = ?w,
        THEN conjunct2, THEN conjunct2, unfolded Let_def, THEN conjunct2, THEN conjunct1] nex by (simp add: requests_def path_of_def)
  have a2: "fst (fst (download_ticker_data (?G 1) ''AAPL'' ''8y'' ?w))
      \<and> mset (files (snd (download_ticker_data (?G 1) ''AAPL'' ''8y'' ?w))) = {#(''AAPL.csv'', [8])#}"
    using fetch_side_effects[where Q = "?G 1" and t = "''AAPL''" and period = "''8y''" and v = ?w,
        THEN conjunct2, THEN conjunct2, unfolded Let_def, THEN conjunct2, THEN conjunct2, THEN conjunct1] nex
    by (simp add: requests_def path_of_def)
  have a3: "fst (fst (download_ticker_data (?G 2) ''AAPL'' ''8y'' ?w))
      \<and> mset (files (snd (download_ticker_data (?G 2) ''AAPL'' ''8y'' ?w))) = {#(''AAPL.csv'', [9])#}"
    using fetch_side_effects[where Q = "?G 2" and t = "''AAPL''" and period = "''8y''" and v = ?w,
        THEN conjunct2, THEN conjunct2, unfolded Let_def, THEN conjunct2, THEN conjunct2, THEN conjunct2, THEN conjunct1] nex
    by (simp add: requests_def path_of_def)
  have b: "files (snd (download_ticker_data (?G 0) ''AAPL'' ''8y'' ?c)) = [(''AAPL.csv'', [1])]"
    using fetch_side_effects[where Q = "?G 0" and t = "''AAPL''" and period = "''8y''" and v = ?c,
      THEN conjunct2, THEN conjunct2, unfolded Let_def, THEN conjunct1] ex
    by simp
  have c: "\<not> fst (fst (download_ticker_data ?E ''AAPL'' ''8y'' ?w))"
    using fetch_side_effects[where Q = ?E and t = "''AAPL''" and period = "''8y''" and v = ?w,
        THEN conjunct2, THEN conjunct2, unfolded Let_def, THEN conjunct2, THEN conjunct2, THEN conjunct2, THEN conjunct2, THEN conjunct1] nex
    by simp
  have d: "files (snd (download_ticker_data ?E ''AAPL'' ''8y'' ?w)) = []"
    using fetch_side_effects[where Q = ?E and t = "''AAPL''" and period = "''8y''" and v = ?w,
        THEN conjunct2, THEN conjunct2, unfolded Let_def, THEN conjunct2, THEN conjunct2, THEN conjunct2, THEN conjunct2, THEN conjunct2] c
    by simp
  show ?thesis using nex ex a1 a2 a3 b c d by simp
qed

text \<open>
  With an empty cache directory and a provider that answers with one row,
  \<open>download_ticker_data\<close> leaves the file \<open>AAPL.csv\<close> behind.
\<close>

theorem download_writes_file_counterexample:
  "files (snd (download_ticker_data (\<lambda>k t r. History [0::nat]) ''AAPL'' ''8y''
        \<lparr>files = [], trace = [], listing_rank = (\<lambda>name. 0)\<rparr>)) = [(''AAPL.csv'', [0])]
   \<and> files (\<lparr>files = [], trace = [], listing_rank = (\<lambda>name. 0)\<rparr> :: nat world) = []"
  by (simp add: download_ticker_data_def exists_file_def attempts_unroll history_def to_csv_def
      path_of_def)

section \<open>Properties of the archives\<close>

lemma is_csv_suffix: "is_csv name \<Longrightarrow> \<exists>s. name = s @ ''.csv''"
  unfolding is_csv_def by (metis append_take_drop_id)

lemma zip_names:
  "map fst (create_download_zip csv data_dict) = map (\<lambda>name. name @ ''.csv'') (map fst data_dict)"
  by (simp add: create_download_zip_def case_prod_unfold)

lemma zip_payloads:
  "map snd (create_download_zip csv data_dict) = map (\<lambda>(name, df). csv df) data_dict"
  by (simp add: create_download_zip_def case_prod_unfold)

lemma zip_distinct:
  "distinct (map fst data_dict) \<Longrightarrow> distinct (map fst (create_download_zip csv data_dict))"
  unfolding zip_names by (simp add: distinct_map inj_on_def)

lemma cache_zip_names:
  "map fst (filter (\<lambda>(name, content). is_csv name) fs) = filter is_csv (map fst fs)"
  by (induction fs) auto

text \<open>
  C6. An empty input gives no archive to download: \<open>create_download_zip\<close> of the integrated
  app returns an archive without entries for the empty dictionary and the page offers none;
  \<open>create_download_zip\<close> of download\_data.py returns \<open>None\<close> when the cache directory has
  no CSV file. For an input that is not empty the archive has one entry per key, in the order
  of the input, named \<open>key.csv\<close>: for a dictionary with the serialised table as payload,
  for the cache directory with the files that match \<open>*.csv\<close> under their own names.
\<close>

theorem archive_entries:
  "create_download_zip csv [] = [] \<and> offer_zip csv [] = None
   \<and> (glob_csv w = [] \<longrightarrow> create_download_zip_cache w = None \<and> offer_zip_cache w = None)
   \<and> (distinct (map fst data_dict) \<and> data_dict \<noteq> [] \<longrightarrow>
        offer_zip csv data_dict = Some (create_download_zip csv data_dict)
        \<and> map fst (create_download_zip csv data_dict) = map (\<lambda>name. name @ ''.csv'') (map fst data_dict)
        \<and> map snd (create_download_zip csv data_dict) = map (\<lambda>(name, df). csv df) data_dict
        \<and> distinct (map fst (create_download_zip csv data_dict)))
   \<and> (distinct (map fst (files w)) \<and> glob_csv w \<noteq> [] \<longrightarrow>
        (\<exists>archive. create_download_zip_cache w = Some archive \<and> offer_zip_cache w = Some archive
           \<and> map fst archive = glob_csv w
           \<and> distinct (map fst archive)
           \<and> set archive \<subseteq> set (files w)
           \<and> (\<forall>name \<in> set (map fst archive). \<exists>s. name = s @ ''.csv'')))"
proof -
  let ?csv_files = "filter (\<lambda>(name, content). is_csv name) (files w)"
  have names: "map fst ?csv_files = glob_csv w"
    by (simp add: cache_zip_names glob_csv_def)
  have empty: "create_download_zip_cache w = None \<and> offer_zip_cache w = None" if "glob_csv w = []"
  proof -
    have "?csv_files = []" using names that by (metis map_is_Nil_conv)
    then show ?thesis by (simp add: create_download_zip_cache_def offer_zip_cache_def that)
  qed
  have dict: "offer_zip csv data_dict = Some (create_download_zip csv data_dict)
        \<and> map fst (create_download_zip csv data_dict) = map (\<lambda>name. name @ ''.csv'') (map fst data_dict)
        \<and> map snd (create_download_zip csv data_dict) = map (\<lambda>(name, df). csv df) data_dict
        \<and> distinct (map fst (create_download_zip csv data_dict))"
    if "distinct (map fst data_dict)" "data_dict \<noteq> []"
    using that zip_names[of csv data_dict] zip_payloads[of csv data_dict] zip_distinct[of data_dict csv]
    by (simp add: offer_zip_def)
  have cache: "\<exists>archive. create_download_zip_cache w = Some archive \<and> offer_zip_cache w = Some archive
           \<and> map fst archive = glob_csv w
           \<and> distinct (map fst archive)
           \<and> set archive \<subseteq> set (files w)
           \<and> (\<forall>name \<in> set (map fst archive). \<exists>s. name = s @ ''.csv'')"
    if d: "distinct (map fst (files w))" and ne: "glob_csv w \<noteq> []"
  proof -
    have ne': "?csv_files \<noteq> []" using names ne by (metis map_is_Nil_conv)
    have a: "create_download_zip_cache w = Some ?csv_files"
      using ne' by (simp add: create_download_zip_cache_def)
    have b: "offer_zip_cache w = Some ?csv_files"
      using a ne by (simp add: offer_zip_cache_def)
    have c: "distinct (map fst ?csv_files)"
      unfolding names glob_csv_def using d by simp
    have e: "\<forall>name \<in> set (map fst ?csv_files). \<exists>s. name = s @ ''.csv''"
      unfolding names glob_csv_def using is_csv_suffix by simp
    show ?thesis using a b c e names by (intro exI[of _ ?csv_files]) auto
  qed
  show ?thesis
    using empty dict cache by (simp add: create_download_zip_def offer_zip_def)
qed


theorem archive_entries_witness:
  "distinct (map fst [(''AAPL'', 1::nat), (''MSFT'', 2)]) \<and> [(''AAPL'', 1::nat), (''MSFT'', 2)] \<noteq> []
   \<and> map fst (create_download_zip id [(''AAPL'', 1::nat), (''MSFT'', 2)]) = [''AAPL.csv'', ''MSFT.csv'']
   \<and> distinct (map fst (files
         \<lparr>files = [(''AAPL.csv'', [1::nat]), (''notes.txt'', []), (''MSFT.csv'', [2])], trace = [], listing_rank = (\<lambda>name. 0)\<rparr>))
   \<and> glob_csv \<lparr>files = [(''AAPL.csv'', [1::nat]), (''notes.txt'', []), (''MSFT.csv'', [2])], trace = [], listing_rank = (\<lambda>name. 0)\<rparr>
       = [''AAPL.csv'', ''MSFT.csv'']
   \<and> (\<exists>archive. create_download_zip_cache
           \<lparr>files = [(''AAPL.csv'', [1::nat]), (''notes.txt'', []), (''MSFT.csv'', [2])], trace = [], listing_rank = (\<lambda>name. 0)\<rparr>
         = Some archive \<and> map fst archive = [''AAPL.csv'', ''MSFT.csv''])
   \<and> glob_csv (\<lparr>files = [(''notes.txt'', [])], trace = [], listing_rank = (\<lambda>name. 0)\<rparr> :: nat world) = []
   \<and> create_download_zip_cache (\<lparr>files = [(''notes.txt'', [])], trace = [], listing_rank = (\<lambda>name. 0)\<rparr> :: nat world) = None"
proof -
  let ?d = "[(''AAPL'', 1::nat), (''MSFT'', 2)]"
  let ?w = "\<lparr>files = [(''AAPL.csv'', [1::nat]), (''notes.txt'', []), (''MSFT.csv'', [2])], trace = [], listing_rank = (\<lambda>name. 0)\<rparr>"
  let ?e = "\<lparr>files = [(''notes.txt'', [])], trace = [], listing_rank = (\<lambda>name. 0)\<rparr> :: nat world"
  have d: "distinct (map fst ?d)" "?d \<noteq> []" by simp_all
  have g: "glob_csv ?w = [''AAPL.csv'', ''MSFT.csv'']"
    by (simp add: glob_csv_def is_csv_def)
  have f: "distinct (map fst (files ?w))" by simp
  have ge: "glob_csv ?e = []" by (simp add: glob_csv_def is_csv_def)
  have a: "map fst (create_download_zip id ?d) = [''AAPL.csv'', ''MSFT.csv'']"
    using archive_entries[where csv = id and data_dict = ?d, THEN conjunct2, THEN conjunct2,
        THEN conjunct2, THEN conjunct1] d
    by simp
  have b: "\<exists>archive. create_download_zip_cache ?w = Some archive
      \<and> map fst archive = [''AAPL.csv'', ''MSFT.csv'']"
    using archive_entries[where w = ?w, THEN conjunct2, THEN conjunct2,
        THEN conjunct2, THEN conjunct2] f g
    by auto
  have c: "create_download_zip_cache ?e = None"
    using archive_entries[where w = ?e, THEN conjunct2, THEN conjunct2, THEN conjunct1] ge
    by simp
  show ?thesis using d a f g b ge c by simp
qed

section \<open>Properties of the merge and filter block\<close>

lemma fill_name_fields:
  "Symbol (fill_name m) = Symbol m"
  "Name (fill_name m) = fillna (Name_info m) (Name m)"
  "Market_Category (fill_name m) = Market_Category m"
  "Exchange (fill_name m) = Exchange m"
  "Last_Sale (fill_name m) = Last_Sale m"
  "Market_Cap (fill_name m) = Market_Cap m"
  "Volume (fill_name m) = Volume m"
  by (simp_all add: fill_name_def priced_row.defs ticker_row.defs)

lemma merge_inner_set:
  "set (merge_inner ticker_df info_df) =
     {join_rows t i | t i. t \<in> set ticker_df \<and> i \<in> set info_df \<and> info_Symbol i = Symbol t}"
  by (auto simp add: merge_inner_def)

lemma ge_Some: "ge x threshold \<Longrightarrow> \<exists>v. x = Some v \<and> threshold \<le> v"
  by (cases x) (simp_all add: ge_def)

lemmas merge_eval =
  merge_and_filter_def merge_names_def merge_inner_def join_rows_def fill_name_def fillna_def
  ge_def priced_row.defs ticker_row.defs Let_def

text \<open>
  C7. Every row the block keeps comes from a row of \<open>ticker_df\<close> and a row of
  \<open>info_df\<close> with the same symbol, whose fields it carries, so a row without a match on the
  other side leaves no trace in the output; and it meets the three thresholds together: its
  last price, market capitalisation and volume are numbers, none below its threshold.
\<close>

theorem merge_and_filter_sound:
  assumes "merge_and_filter ticker_df info_df min_price min_market_cap min_volume = Some filtered_df"
  shows "\<forall>r \<in> set filtered_df.
     (\<exists>t \<in> set ticker_df. \<exists>i \<in> set info_df.
        info_Symbol i = Symbol t \<and> Symbol r = Symbol t
        \<and> Market_Category r = Market_Category t \<and> Exchange r = Exchange t
        \<and> Last_Sale r = info_Last_Sale i \<and> Market_Cap r = info_Market_Cap i
        \<and> Volume r = info_Volume i)
     \<and> (\<exists>price cap volume.
           Last_Sale r = Some price \<and> min_price \<le> price
           \<and> Market_Cap r = Some cap \<and> min_market_cap \<le> cap
           \<and> Volume r = Some volume \<and> min_volume \<le> volume)"
proof
  fix r
  assume r: "r \<in> set filtered_df"
  have eq: "filtered_df = filter (\<lambda>r. ge (Last_Sale r) min_price \<and>
        ge (Market_Cap r) min_market_cap \<and> ge (Volume r) min_volume)
      (merge_names ticker_df info_df)"
    using assms by (simp add: merge_and_filter_def Let_def split: if_splits)
  then have "r \<in> set (merge_names ticker_df info_df)" using r by simp
  then obtain t i where ti: "t \<in> set ticker_df" "i \<in> set info_df" "info_Symbol i = Symbol t"
      "r = fill_name (join_rows t i)"
    by (auto simp add: merge_names_def merge_inner_set)
  have fields: "Symbol r = Symbol t \<and> Market_Category r = Market_Category t \<and> Exchange r = Exchange t
        \<and> Last_Sale r = info_Last_Sale i \<and> Market_Cap r = info_Market_Cap i
        \<and> Volume r = info_Volume i"
    using ti(4) by (simp add: fill_name_fields join_rows_def)
  have "ge (Last_Sale r) min_price" "ge (Market_Cap r) min_market_cap" "ge (Volume r) min_volume"
    using r eq by simp_all
  then have th: "\<exists>price cap volume.
           Last_Sale r = Some price \<and> min_price \<le> price
           \<and> Market_Cap r = Some cap \<and> min_market_cap \<le> cap
           \<and> Volume r = Some volume \<and> min_volume \<le> volume"
    using ge_Some by blast
  show "(\<exists>t \<in> set ticker_df. \<exists>i \<in> set info_df.
        info_Symbol i = Symbol t \<and> Symbol r = Symbol t
        \<and> Market_Category r = Market_Category t \<and> Exchange r = Exchange t
        \<and> Last_Sale r = info_Last_Sale i \<and> Market_Cap r = info_Market_Cap i
        \<and> Volume r = info_Volume i)
     \<and> (\<exists>price cap volume.
           Last_Sale r = Some price \<and> min_price \<le> price
           \<and> Market_Cap r = Some cap \<and> min_market_cap \<le> cap
           \<and> Volume r = Some volume \<and> min_volume \<le> volume)"
    using ti(1,2,3) fields th by blast
qed

theorem merge_and_filter_sound_witness:
  "merge_and_filter
     [\<lparr>Symbol = ''AAPL'', Name = Some ''Apple Inc'', Market_Category = Some ''Q'', Exchange = ''NASDAQ''\<rparr>,
      \<lparr>Symbol = ''MSFT'', Name = Some ''Microsoft Corp'', Market_Category = Some ''Q'', Exchange = ''NASDAQ''\<rparr>]
     [\<lparr>info_Symbol = ''AAPL'', info_Name = None, info_Last_Sale = Some 150, info_Market_Cap = Some 2000000000000, info_Volume = Some 50000000\<rparr>,
      \<lparr>info_Symbol = ''PENNY'', info_Name = Some ''Penny Co'', info_Last_Sale = Some 1, info_Market_Cap = Some 1000, info_Volume = Some 10\<rparr>]
     5 10000000000 100000
   = Some [\<lparr>Symbol = ''AAPL'', Name = Some ''Apple Inc'', Market_Category = Some ''Q'', Exchange = ''NASDAQ'', Last_Sale = Some 150, Market_Cap = Some 2000000000000, Volume = Some 50000000\<rparr>]
   \<and> (\<exists>price cap volume. Some (150::rat) = Some price \<and> 5 \<le> price
         \<and> Some (2000000000000::rat) = Some cap \<and> 10000000000 \<le> cap
         \<and> Some (50000000::rat) = Some volume \<and> 100000 \<le> volume)"
proof -
  let ?T = "[\<lparr>Symbol = ''AAPL'', Name = Some ''Apple Inc'', Market_Category = Some ''Q'', Exchange = ''NASDAQ''\<rparr>,
      \<lparr>Symbol = ''MSFT'', Name = Some ''Microsoft Corp'', Market_Category = Some ''Q'', Exchange = ''NASDAQ''\<rparr>]"
  let ?I = "[\<lparr>info_Symbol = ''AAPL'', info_Name = None, info_Last_Sale = Some 150, info_Market_Cap = Some 2000000000000, info_Volume = Some 50000000\<rparr>,
      \<lparr>info_Symbol = ''PENNY'', info_Name = Some ''Penny Co'', info_Last_Sale = Some 1, info_Market_Cap = Some 1000, info_Volume = Some 10\<rparr>]"
  let ?r = "\<lparr>Symbol = ''AAPL'', Name = Some ''Apple Inc'', Market_Category = Some ''Q'', Exchange = ''NASDAQ'', Last_Sale = Some 150, Market_Cap = Some 2000000000000, Volume = Some 50000000\<rparr>"
  have run: "merge_and_filter ?T ?I 5 10000000000 100000 = Some [?r]"
    by (simp add: merge_eval)
  have "\<exists>price cap volume. Last_Sale ?r = Some price \<and> 5 \<le> price
         \<and> Market_Cap ?r = Some cap \<and> 10000000000 \<le> cap
         \<and> Volume ?r = Some volume \<and> 100000 \<le> volume"
    using merge_and_filter_sound[OF run] by simp
  then show ?thesis using run by simp
qed

text \<open>
  C8, as the code has it. The \<open>Name\<close> of a merged row is the name of the summary whenever
  that name is present, the empty string included, and the name of the ticker list when it
  is missing (\<open>fillna\<close> replaces missing values only). Every merged row comes from a
  matching pair in this way, and every matching pair yields such a row.
\<close>

theorem merged_name_resolution:
  "(\<forall>r \<in> set (merge_names ticker_df info_df).
      \<exists>t \<in> set ticker_df. \<exists>i \<in> set info_df.
        info_Symbol i = Symbol t \<and> Symbol r = Symbol t
        \<and> Name r = (case info_Name i of Some name \<Rightarrow> Some name | None \<Rightarrow> Name t))
   \<and> (\<forall>t \<in> set ticker_df. \<forall>i \<in> set info_df. info_Symbol i = Symbol t \<longrightarrow>
        (\<exists>r \<in> set (merge_names ticker_df info_df). Symbol r = Symbol t
           \<and> Name r = (case info_Name i of Some name \<Rightarrow> Some name | None \<Rightarrow> Name t)))"
proof -
  have nm: "Symbol (fill_name (join_rows t i)) = Symbol t \<and>
      Name (fill_name (join_rows t i)) = (case info_Name i of Some name \<Rightarrow> Some name | None \<Rightarrow> Name t)"
    for t i
    by (simp add: fill_name_fields join_rows_def fillna_def)
  have one: "\<forall>r \<in> set (merge_names ticker_df info_df).
      \<exists>t \<in> set ticker_df. \<exists>i \<in> set info_df.
        info_Symbol i = Symbol t \<and> Symbol r = Symbol t
        \<and> Name r = (case info_Name i of Some name \<Rightarrow> Some name | None \<Rightarrow> Name t)"
    using nm by (auto simp add: merge_names_def merge_inner_set)
  have two: "\<forall>t \<in> set ticker_df. \<forall>i \<in> set info_df. info_Symbol i = Symbol t \<longrightarrow>
        (\<exists>r \<in> set (merge_names ticker_df info_df). Symbol r = Symbol t
           \<and> Name r = (case info_Name i of Some name \<Rightarrow> Some name | None \<Rightarrow> Name t))"
  proof (intro ballI impI)
    fix t i
    assume "t \<in> set ticker_df" "i \<in> set info_df" "info_Symbol i = Symbol t"
    then have "fill_name (join_rows t i) \<in> set (merge_names ticker_df info_df)"
      by (auto simp add: merge_names_def merge_inner_set)
    then show "\<exists>r \<in> set (merge_names ticker_df info_df). Symbol r = Symbol t
           \<and> Name r = (case info_Name i of Some name \<Rightarrow> Some name | None \<Rightarrow> Name t)"
      using nm by blast
  qed
  show ?thesis using one two by blast
qed

theorem merged_name_resolution_witness:
  "merge_names [\<lparr>Symbol = ''AAPL'', Name = Some ''Apple Inc'', Market_Category = Some ''Q'', Exchange = ''NASDAQ''\<rparr>]
     [\<lparr>info_Symbol = ''AAPL'', info_Name = None, info_Last_Sale = Some 150, info_Market_Cap = Some 2000000000000, info_Volume = Some 50000000\<rparr>]
   = [\<lparr>Symbol = ''AAPL'', Name = Some ''Apple Inc'', Market_Category = Some ''Q'', Exchange = ''NASDAQ'', Last_Sale = Some 150, Market_Cap = Some 2000000000000, Volume = Some 50000000\<rparr>]
   \<and> (\<exists>r \<in> set (merge_names [\<lparr>Symbol = ''AAPL'', Name = Some ''Apple Inc'', Market_Category = Some ''Q'', Exchange = ''NASDAQ''\<rparr>]
         [\<lparr>info_Symbol = ''AAPL'', info_Name = None, info_Last_Sale = Some 150, info_Market_Cap = Some 2000000000000, info_Volume = Some 50000000\<rparr>]).
        Symbol r = ''AAPL'' \<and> Name r = Some ''Apple Inc'')"
proof -
  let ?t = "\<lparr>Symbol = ''AAPL'', Name = Some ''Apple Inc'', Market_Category = Some ''Q'', Exchange = ''NASDAQ''\<rparr>"
  let ?i = "\<lparr>info_Symbol = ''AAPL'', info_Name = None, info_Last_Sale = Some 150, info_Market_Cap = Some 2000000000000, info_Volume = Some 50000000\<rparr>"
  have run: "merge_names [?t] [?i] = [\<lparr>Symbol = ''AAPL'', Name = Some ''Apple Inc'', Market_Category = Some ''Q'', Exchange = ''NASDAQ'', Last_Sale = Some 150, Market_Cap = Some 2000000000000, Volume = Some 50000000\<rparr>]"
    by (simp add: merge_eval)
  have "\<exists>r \<in> set (merge_names [?t] [?i]). Symbol r = Symbol ?t
      \<and> Name r = (case info_Name ?i of Some name \<Rightarrow> Some name | None \<Rightarrow> Name ?t)"
    using merged_name_resolution[where ticker_df = "[?t]" and info_df = "[?i]", THEN conjunct2]
    by simp
  then show ?thesis using run by simp
qed

text \<open>
  A summary whose name is the empty string: the merged row has the empty name, not the name
  \<open>Apple Inc\<close> of the ticker list.
\<close>

theorem empty_summary_name_counterexample:
  "map Name (merge_names [\<lparr>Symbol = ''AAPL'', Name = Some ''Apple Inc'', Market_Category = Some ''Q'', Exchange = ''NASDAQ''\<rparr>]
     [\<lparr>info_Symbol = ''AAPL'', info_Name = Some '''', info_Last_Sale = Some 150, info_Market_Cap = Some 2000000000000, info_Volume = Some 50000000\<rparr>])
   = [Some '''']"
  by (simp add: merge_eval)

section \<open>Properties of \<open>download_nasdaq_tickers\<close>\<close>

lemma cell_update: "cell_of (AList.update k v r) c = (if c = k then v else cell_of r c)"
  by (simp add: cell_of_def update_conv')

lemmas try_block_defs =
  try_block_def and_then_def read_source_def not_test_issue_def assign_def
  select_columns_def rename_def concat_frames_def Let_def

lemma try_block_success:
  assumes "set [''Test Issue'', ''Symbol'', ''Security Name'', ''Market Category''] \<subseteq> set (columns nf)"
    and "set [''Test Issue'', ''ACT Symbol'', ''Security Name''] \<subseteq> set (columns otf)"
  shows "try_block (Table nf) (Table otf) =
     Inr \<lparr>columns = [''Symbol'', ''Name'', ''Market Category'', ''Exchange''],
          rows =
            map (\<lambda>src. [(''Symbol'', cell_of src ''Symbol''), (''Name'', cell_of src ''Security Name''),
                   (''Market Category'', cell_of src ''Market Category''),
                   (''Exchange'', Str ''NASDAQ'')])
              (filter (\<lambda>r. cell_of r ''Test Issue'' = Str ''N'') (rows nf))
            @ map (\<lambda>src. [(''Symbol'', cell_of src ''ACT Symbol''),
                   (''Name'', cell_of src ''Security Name''),
                   (''Market Category'', Str ''N/A''), (''Exchange'', Str ''OTHER'')])
              (filter (\<lambda>r. cell_of r ''Test Issue'' = Str ''N'') (rows otf))\<rparr>"
  using assms
  by (simp add: try_block_defs cell_update cell_of_def[of "_ # _"] comp_def)

lemma try_block_broken:
  "try_block (Broken e) other_source = Inl (OtherError e)"
  "\<exists>x. try_block nasdaq_source (Broken e) = Inl x"
  by (cases nasdaq_source; simp add: try_block_defs)+

lemma try_block_nasdaq_columns:
  assumes "\<not> set [''Test Issue'', ''Symbol'', ''Security Name'', ''Market Category''] \<subseteq> set (columns nf)"
  shows "\<exists>x. try_block (Table nf) other_source = Inl x"
  using assms
  by (cases other_source) (auto simp add: try_block_defs)

lemma try_block_other_columns:
  assumes "\<not> set [''Test Issue'', ''ACT Symbol'', ''Security Name''] \<subseteq> set (columns otf)"
  shows "\<exists>x. try_block nasdaq_source (Table otf) = Inl x"
  using assms
  by (cases nasdaq_source) (auto simp add: try_block_defs)

text \<open>
  C10. \<open>download_nasdaq_tickers\<close> returns a table on every input. When a source cannot be
  fetched or parsed, or its table lacks a column the function reads, and more generally
  whatever exception the \<open>try\<close> block raises, the result is the empty table. Every row of
  the result comes from a row of one of the two sources whose \<open>Test Issue\<close> is \<open>N\<close>, with
  the symbol, the name and the exchange the function gives it.
\<close>

theorem download_nasdaq_tickers_never_raises:
  "((\<exists>e. nasdaq_source = Broken e) \<or> (\<exists>e. other_source = Broken e)
      \<or> (\<exists>df. nasdaq_source = Table df \<and>
            \<not> set [''Test Issue'', ''Symbol'', ''Security Name'', ''Market Category'']
                \<subseteq> set (columns df))
      \<or> (\<exists>df. other_source = Table df \<and>
            \<not> set [''Test Issue'', ''ACT Symbol'', ''Security Name''] \<subseteq> set (columns df))
     \<longrightarrow> download_nasdaq_tickers nasdaq_source other_source = empty_frame)
   \<and> (\<forall>e. try_block nasdaq_source other_source = Inl e
        \<longrightarrow> download_nasdaq_tickers nasdaq_source other_source = empty_frame)
   \<and> (\<forall>r \<in> set (rows (download_nasdaq_tickers nasdaq_source other_source)).
        (\<exists>df. nasdaq_source = Table df \<and>
           (\<exists>src \<in> set (rows df). cell_of src ''Test Issue'' = Str ''N''
              \<and> cell_of r ''Symbol'' = cell_of src ''Symbol''
              \<and> cell_of r ''Name'' = cell_of src ''Security Name''
              \<and> cell_of r ''Market Category'' = cell_of src ''Market Category''
              \<and> cell_of r ''Exchange'' = Str ''NASDAQ''))
        \<or> (\<exists>df. other_source = Table df \<and>
           (\<exists>src \<in> set (rows df). cell_of src ''Test Issue'' = Str ''N''
              \<and> cell_of r ''Symbol'' = cell_of src ''ACT Symbol''
              \<and> cell_of r ''Name'' = cell_of src ''Security Name''
              \<and> cell_of r ''Market Category'' = Str ''N/A''
              \<and> cell_of r ''Exchange'' = Str ''OTHER'')))"
proof -
  let ?result = "download_nasdaq_tickers nasdaq_source other_source"
  let ?fails = "(\<exists>e. nasdaq_source = Broken e) \<or> (\<exists>e. other_source = Broken e)
      \<or> (\<exists>df. nasdaq_source = Table df \<and>
            \<not> set [''Test Issue'', ''Symbol'', ''Security Name'', ''Market Category'']
                \<subseteq> set (columns df))
      \<or> (\<exists>df. other_source = Table df \<and>
            \<not> set [''Test Issue'', ''ACT Symbol'', ''Security Name''] \<subseteq> set (columns df))"
  have caught: "?result = empty_frame" if "try_block nasdaq_source other_source = Inl e" for e
    using that by (simp add: download_nasdaq_tickers_def)
  have raised: "\<exists>e. try_block nasdaq_source other_source = Inl e" if ?fails
    using that try_block_broken(1)[of _ other_source] try_block_broken(2)[of nasdaq_source]
      try_block_nasdaq_columns[of _ other_source] try_block_other_columns[of _ nasdaq_source]
    by (elim disjE exE conjE) (simp_all del: set_simps)
  have one: "?result = empty_frame" if ?fails
    using raised[OF that] caught by blast
  have three: "(\<exists>df. nasdaq_source = Table df \<and>
           (\<exists>src \<in> set (rows df). cell_of src ''Test Issue'' = Str ''N''
              \<and> cell_of r ''Symbol'' = cell_of src ''Symbol''
              \<and> cell_of r ''Name'' = cell_of src ''Security Name''
              \<and> cell_of r ''Market Category'' = cell_of src ''Market Category''
              \<and> cell_of r ''Exchange'' = Str ''NASDAQ''))
        \<or> (\<exists>df. other_source = Table df \<and>
           (\<exists>src \<in> set (rows df). cell_of src ''Test Issue'' = Str ''N''
              \<and> cell_of r ''Symbol'' = cell_of src ''ACT Symbol''
              \<and> cell_of r ''Name'' = cell_of src ''Security Name''
              \<and> cell_of r ''Market Category'' = Str ''N/A''
              \<and> cell_of r ''Exchange'' = Str ''OTHER''))"
    if r: "r \<in> set (rows ?result)" for r
  proof (cases ?fails)
    case True
    then have "?result = empty_frame" by (rule one)
    then show ?thesis using r by (simp add: empty_frame_def)
  next
    case False
    then obtain nf otf where src: "nasdaq_source = Table nf" "other_source = Table otf"
        and cols: "set [''Test Issue'', ''Symbol'', ''Security Name'', ''Market Category'']
                \<subseteq> set (columns nf)"
          "set [''Test Issue'', ''ACT Symbol'', ''Security Name''] \<subseteq> set (columns otf)"
      by (cases nasdaq_source; cases other_source) (auto simp del: set_simps)
    have "r \<in> set (map (\<lambda>src. [(''Symbol'', cell_of src ''Symbol''), (''Name'', cell_of src ''Security Name''),
                   (''Market Category'', cell_of src ''Market Category''),
                   (''Exchange'', Str ''NASDAQ'')])
              (filter (\<lambda>r. cell_of r ''Test Issue'' = Str ''N'') (rows nf))
            @ map (\<lambda>src. [(''Symbol'', cell_of src ''ACT Symbol''),
                   (''Name'', cell_of src ''Security Name''),
                   (''Market Category'', Str ''N/A''), (''Exchange'', Str ''OTHER'')])
              (filter (\<lambda>r. cell_of r ''Test Issue'' = Str ''N'') (rows otf)))"
      using r try_block_success[OF cols] src by (simp add: download_nasdaq_tickers_def)
    then consider
        (n) src where "src \<in> set (rows nf)" "cell_of src ''Test Issue'' = Str ''N''"
          "r = [(''Symbol'', cell_of src ''Symbol''), (''Name'', cell_of src ''Security Name''),
                   (''Market Category'', cell_of src ''Market Category''),
                   (''Exchange'', Str ''NASDAQ'')]"
      | (o) src where "src \<in> set (rows otf)" "cell_of src ''Test Issue'' = Str ''N''"
          "r = [(''Symbol'', cell_of src ''ACT Symbol''),
                   (''Name'', cell_of src ''Security Name''),
                   (''Market Category'', Str ''N/A''), (''Exchange'', Str ''OTHER'')]"
      by auto
    then show ?thesis
    proof cases
      case n
      have "cell_of r ''Symbol'' = cell_of src ''Symbol''
              \<and> cell_of r ''Name'' = cell_of src ''Security Name''
              \<and> cell_of r ''Market Category'' = cell_of src ''Market Category''
              \<and> cell_of r ''Exchange'' = Str ''NASDAQ''"
        unfolding n(3) by (simp add: cell_of_def[of "_ # _"])
      then show ?thesis using n(1,2) src(1) by blast
    next
      case o
      have "cell_of r ''Symbol'' = cell_of src ''ACT Symbol''
              \<and> cell_of r ''Name'' = cell_of src ''Security Name''
              \<and> cell_of r ''Market Category'' = Str ''N/A''
              \<and> cell_of r ''Exchange'' = Str ''OTHER''"
        unfolding o(3) by (simp add: cell_of_def[of "_ # _"])
      then show ?thesis using o(1,2) src(2) by blast
    qed
  qed
  show ?thesis using one caught three by blast
qed

theorem download_nasdaq_tickers_never_raises_witness:
  "download_nasdaq_tickers (Broken ''connection refused'')
       (Table \<lparr>columns = [''ACT Symbol'', ''Security Name'', ''Test Issue''], rows = []\<rparr>)
     = empty_frame
   \<and> download_nasdaq_tickers
       (Table \<lparr>columns = [''Symbol'', ''Security Name''], rows = []\<rparr>)
       (Table \<lparr>columns = [''ACT Symbol'', ''Security Name'', ''Test Issue''], rows = []\<rparr>)
     = empty_frame
   \<and> rows (download_nasdaq_tickers
       (Table \<lparr>columns = [''Symbol'', ''Security Name'', ''Market Category'', ''Test Issue''],
          rows = [[(''Symbol'', Str ''AAPL''), (''Security Name'', Str ''Apple Inc''),
                   (''Market Category'', Str ''Q''), (''Test Issue'', Str ''N'')],
                  [(''Symbol'', Str ''ZTEST''), (''Security Name'', Str ''Test Stock''),
                   (''Market Category'', Str ''G''), (''Test Issue'', Str ''Y'')]]\<rparr>)
       (Table \<lparr>columns = [''ACT Symbol'', ''Security Name'', ''Test Issue''],
          rows = [[(''ACT Symbol'', Str ''IBM''), (''Security Name'', Str ''IBM Corp''),
                   (''Test Issue'', Str ''N'')]]\<rparr>))
     = [[(''Symbol'', Str ''AAPL''), (''Name'', Str ''Apple Inc''),
         (''Market Category'', Str ''Q''), (''Exchange'', Str ''NASDAQ'')],
        [(''Symbol'', Str ''IBM''), (''Name'', Str ''IBM Corp''),
         (''Market Category'', Str ''N/A''), (''Exchange'', Str ''OTHER'')]]
   \<and> (\<exists>src \<in> set [[(''Symbol'', Str ''AAPL''), (''Security Name'', Str ''Apple Inc''),
                   (''Market Category'', Str ''Q''), (''Test Issue'', Str ''N'')],
                  [(''Symbol'', Str ''ZTEST''), (''Security Name'', Str ''Test Stock''),
                   (''Market Category'', Str ''G''), (''Test Issue'', Str ''Y'')]].
         cell_of src ''Test Issue'' = Str ''N'' \<and> cell_of src ''Symbol'' = Str ''AAPL'')"
proof -
  let ?o0 = "Table \<lparr>columns = [''ACT Symbol'', ''Security Name'', ''Test Issue''], rows = []\<rparr>"
  let ?nf = "\<lparr>columns = [''Symbol'', ''Security Name'', ''Market Category'', ''Test Issue''],
          rows = [[(''Symbol'', Str ''AAPL''), (''Security Name'', Str ''Apple Inc''),
                   (''Market Category'', Str ''Q''), (''Test Issue'', Str ''N'')],
                  [(''Symbol'', Str ''ZTEST''), (''Security Name'', Str ''Test Stock''),
                   (''Market Category'', Str ''G''), (''Test Issue'', Str ''Y'')]]\<rparr>"
  let ?otf = "\<lparr>columns = [''ACT Symbol'', ''Security Name'', ''Test Issue''],
          rows = [[(''ACT Symbol'', Str ''IBM''), (''Security Name'', Str ''IBM Corp''),
                   (''Test Issue'', Str ''N'')]]\<rparr>"
  let ?aapl = "[(''Symbol'', Str ''AAPL''), (''Name'', Str ''Apple Inc''),
         (''Market Category'', Str ''Q''), (''Exchange'', Str ''NASDAQ'')]"
  have a: "download_nasdaq_tickers (Broken ''connection refused'') ?o0 = empty_frame"
    using download_nasdaq_tickers_never_raises[where nasdaq_source = "Broken ''connection refused''"
        and other_source = ?o0, THEN conjunct1]
    by simp
  have b: "download_nasdaq_tickers (Table \<lparr>columns = [''Symbol'', ''Security Name''], rows = []\<rparr>) ?o0
      = empty_frame"
    using download_nasdaq_tickers_never_raises[where
        nasdaq_source = "Table \<lparr>columns = [''Symbol'', ''Security Name''], rows = []\<rparr>"
        and other_source = ?o0, THEN conjunct1]
    by simp
  have run: "rows (download_nasdaq_tickers (Table ?nf) (Table ?otf)) =
      [?aapl,
       [(''Symbol'', Str ''IBM''), (''Name'', Str ''IBM Corp''),
         (''Market Category'', Str ''N/A''), (''Exchange'', Str ''OTHER'')]]"
    by (simp add: download_nasdaq_tickers_def try_block_defs cell_update
        cell_of_def[of "_ # _"])
  have "?aapl \<in> set (rows (download_nasdaq_tickers (Table ?nf) (Table ?otf)))"
    unfolding run by simp
  then have "\<exists>src \<in> set (rows ?nf). cell_of src ''Test Issue'' = Str ''N''
      \<and> cell_of ?aapl ''Symbol'' = cell_of src ''Symbol''"
    using download_nasdaq_tickers_never_raises[where nasdaq_source = "Table ?nf"
        and other_source = "Table ?otf", THEN conjunct2, THEN conjunct2, rule_format, of ?aapl]
    by (auto simp add: cell_of_def[of "_ # _"])
  then have c: "\<exists>src \<in> set (rows ?nf). cell_of src ''Test Issue'' = Str ''N''
      \<and> cell_of src ''Symbol'' = Str ''AAPL''"
    by (simp add: cell_of_def[of "_ # _"])
  show ?thesis using a b run c by simp
qed

end
